theory Spec2Isabelle
  imports Main "HOL-Library.Sublist"
begin

section \<open>The phishing-analysis page script (static/js/script.js)\<close>

text \<open>
  The script has two functions: \<open>analyzeEmail\<close>, which reads the text area, posts its
  trimmed content to \<open>/analyze\<close> and handles the answer, and \<open>displayResults\<close>, which turns
  the \<open>analysis\<close> object of the answer into markup and reveals the results card.
  Both are embedded here as functions on an explicit page state. Every write to the page and
  every call into the browser (\<open>alert\<close>, \<open>console.error\<close>, \<open>fetch\<close>, \<open>scrollIntoView\<close>) is
  also appended to a journal, so that the order and the number of effects can be stated.
  The submit handler of the form only prevents the default submission and calls
  \<open>analyzeEmail\<close>; the elements the script looks up by id are taken to exist.

  Strings are byte lists holding the UTF-8 encoding of the script's text; the letters and
  glyphs outside ASCII are named below.
\<close>

abbreviation a_acute :: string where "a_acute \<equiv> [CHR 0xC3, CHR 0xA1]"
abbreviation e_acute :: string where "e_acute \<equiv> [CHR 0xC3, CHR 0xA9]"
abbreviation o_acute :: string where "o_acute \<equiv> [CHR 0xC3, CHR 0xB3]"
abbreviation u_acute :: string where "u_acute \<equiv> [CHR 0xC3, CHR 0xBA]"
abbreviation hourglass :: string where "hourglass \<equiv> [CHR 0xE2, CHR 0x8F, CHR 0xB3]"
abbreviation magnifier :: string where "magnifier \<equiv> [CHR 0xF0, CHR 0x9F, CHR 0x94, CHR 0x8D]"
abbreviation siren :: string where "siren \<equiv> [CHR 0xF0, CHR 0x9F, CHR 0x9A, CHR 0xA8]"
abbreviation warning_sign :: string where "warning_sign \<equiv> [CHR 0xE2, CHR 0x9A, CHR 0xA0]"
abbreviation vs16 :: string where "vs16 \<equiv> [CHR 0xEF, CHR 0xB8, CHR 0x8F]"
abbreviation check_mark :: string where "check_mark \<equiv> [CHR 0xE2, CHR 0x9C, CHR 0x85]"
abbreviation link_sign :: string where "link_sign \<equiv> [CHR 0xF0, CHR 0x9F, CHR 0x94, CHR 0x97]"
abbreviation chart :: string where "chart \<equiv> [CHR 0xF0, CHR 0x9F, CHR 0x93, CHR 0x88]"
abbreviation shield :: string where "shield \<equiv> [CHR 0xF0, CHR 0x9F, CHR 0x9B, CHR 0xA1]"

text \<open>Rendered markup is a string; the synonym marks where one is built or passed.\<close>

type_synonym markup = string

subsection \<open>JavaScript values and errors\<close>

text \<open>
  What \<open>response.json()\<close> resolves to is a parsed JSON value; \<open>Undefined\<close> is added for the
  properties that are missing. Numbers are kept abstract (type \<open>'n\<close>). An object is an
  association list read through \<open>map_of\<close>: parsing leaves one value per key.
\<close>

datatype 'n js_value =
    Undefined
  | Null
  | Bool bool
  | Num 'n
  | Str string
  | Arr "'n js_value list"
  | Obj "(string \<times> 'n js_value) list"

text \<open>
  The places where the script can raise a \<open>TypeError\<close>: destructuring \<open>undefined\<close> or \<open>null\<close>,
  reading a property of \<open>undefined\<close> or \<open>null\<close>, calling something that is not a function, and
  converting an object that has no primitive value.
\<close>

datatype type_error_site =
    Destructuring
  | Reading string
  | Calling string
  | To_primitive

text \<open>
  The errors that reach the \<open>catch\<close> block: the script's own \<open>new Error(data.error)\<close>, a
  \<open>TypeError\<close> of the language, and the rejection of \<open>fetch\<close> or of \<open>response.json()\<close>, which
  carries the message the browser gave it.
\<close>

datatype js_error =
    Error string
  | TypeError type_error_site
  | Rejected string

text \<open>
  The built-in functions the script relies on and whose tables belong to the JavaScript
  engine are parameters: \<open>String.prototype.trim\<close> and \<open>toLowerCase\<close>, the conversion of a
  number to a string, the truthiness of a number, the comparisons \<open>n > 0\<close> of a number and
  of a string converted to a number, \<open>JSON.stringify\<close>, and the wording of a \<open>TypeError\<close>.
\<close>

record 'n host =
  trim :: "string \<Rightarrow> string"
  to_lower_case :: "string \<Rightarrow> string"
  number_to_string :: "'n \<Rightarrow> string"
  number_truthy :: "'n \<Rightarrow> bool"
  number_gt_zero :: "'n \<Rightarrow> bool"
  string_gt_zero :: "string \<Rightarrow> bool"
  json_stringify :: "'n js_value \<Rightarrow> string"
  type_error_message :: "type_error_site \<Rightarrow> string"

text \<open>\<open>error.message\<close>.\<close>

fun message_of :: "'n host \<Rightarrow> js_error \<Rightarrow> string" where
  "message_of h (Error m) = m"
| "message_of h (TypeError site) = type_error_message h site"
| "message_of h (Rejected m) = m"

text \<open>Truthiness, as \<open>if (data.error)\<close> tests it.\<close>

fun truthy :: "'n host \<Rightarrow> 'n js_value \<Rightarrow> bool" where
  "truthy h Undefined = False"
| "truthy h Null = False"
| "truthy h (Bool b) = b"
| "truthy h (Num n) = number_truthy h n"
| "truthy h (Str s) = (s \<noteq> [])"
| "truthy h (Arr xs) = True"
| "truthy h (Obj kvs) = True"

text \<open>
  Reading a property whose name no prototype defines (\<open>error\<close>, \<open>analysis\<close> and the six fields
  of the analysis): the own property of an object, \<open>undefined\<close> on any other value that has
  properties; reading it from \<open>undefined\<close> or \<open>null\<close> is a \<open>TypeError\<close>.
\<close>

fun own_property :: "'n js_value \<Rightarrow> string \<Rightarrow> 'n js_value" where
  "own_property (Obj kvs) name = (case map_of kvs name of None \<Rightarrow> Undefined | Some v \<Rightarrow> v)"
| "own_property v name = Undefined"

definition nullish :: "'n js_value \<Rightarrow> bool" where
  "nullish v = (case v of Undefined \<Rightarrow> True | Null \<Rightarrow> True | _ \<Rightarrow> False)"

definition get_own :: "'n js_value \<Rightarrow> string \<Rightarrow> js_error + 'n js_value" where
  "get_own v name =
     (if nullish v then Inl (TypeError (Reading name)) else Inr (own_property v name))"

text \<open>
  The string conversion of a template substitution \<open>${v}\<close> and of \<open>new Error(v)\<close>. An array
  is joined with commas, \<open>undefined\<close> and \<open>null\<close> elements giving the empty string. A parsed
  object prints as \<open>[object Object]\<close> unless it has a property \<open>toString\<close> of its own, which
  hides the inherited function and cannot be called.
\<close>

fun to_string :: "'n host \<Rightarrow> 'n js_value \<Rightarrow> js_error + string"
  and join_elements :: "'n host \<Rightarrow> 'n js_value list \<Rightarrow> js_error + string" where
  "to_string h Undefined = Inr ''undefined''"
| "to_string h Null = Inr ''null''"
| "to_string h (Bool b) = Inr (if b then ''true'' else ''false'')"
| "to_string h (Num n) = Inr (number_to_string h n)"
| "to_string h (Str s) = Inr s"
| "to_string h (Arr xs) = join_elements h xs"
| "to_string h (Obj kvs) =
     (case map_of kvs ''toString'' of
        None \<Rightarrow> Inr ''[object Object]''
      | Some f \<Rightarrow> Inl (TypeError To_primitive))"
| "join_elements h [] = Inr ''''"
| "join_elements h [x] =
     (case x of Undefined \<Rightarrow> Inr '''' | Null \<Rightarrow> Inr '''' | _ \<Rightarrow> to_string h x)"
| "join_elements h (x # y # ys) =
     (case (case x of Undefined \<Rightarrow> Inr '''' | Null \<Rightarrow> Inr '''' | _ \<Rightarrow> to_string h x) of
        Inl e \<Rightarrow> Inl e
      | Inr s \<Rightarrow>
          (case join_elements h (y # ys) of
             Inl e \<Rightarrow> Inl e
           | Inr r \<Rightarrow> Inr (s @ '','' @ r)))"

text \<open>
  The comparison \<open>v > 0\<close>: \<open>undefined\<close> is \<open>NaN\<close> and \<open>null\<close> is \<open>0\<close>, a boolean is \<open>0\<close> or \<open>1\<close>,
  an array or object is first converted to its string.
\<close>

fun gt_zero :: "'n host \<Rightarrow> 'n js_value \<Rightarrow> js_error + bool" where
  "gt_zero h Undefined = Inr False"
| "gt_zero h Null = Inr False"
| "gt_zero h (Bool b) = Inr b"
| "gt_zero h (Num n) = Inr (number_gt_zero h n)"
| "gt_zero h (Str s) = Inr (string_gt_zero h s)"
| "gt_zero h v =
     (case to_string h v of Inl e \<Rightarrow> Inl e | Inr s \<Rightarrow> Inr (string_gt_zero h s))"

text \<open>\<open>v.length > 0\<close>.\<close>

fun length_gt_zero :: "'n host \<Rightarrow> 'n js_value \<Rightarrow> js_error + bool" where
  "length_gt_zero h Undefined = Inl (TypeError (Reading ''length''))"
| "length_gt_zero h Null = Inl (TypeError (Reading ''length''))"
| "length_gt_zero h (Arr xs) = Inr (0 < length xs)"
| "length_gt_zero h (Str s) = Inr (0 < length s)"
| "length_gt_zero h (Obj kvs) =
     (case map_of kvs ''length'' of None \<Rightarrow> Inr False | Some v \<Rightarrow> gt_zero h v)"
| "length_gt_zero h v = Inr False"

text \<open>\<open>risk_level.toLowerCase()\<close>: only a string has the method.\<close>

fun call_to_lower_case :: "'n host \<Rightarrow> 'n js_value \<Rightarrow> js_error + string" where
  "call_to_lower_case h (Str s) = Inr (to_lower_case h s)"
| "call_to_lower_case h Undefined = Inl (TypeError (Reading ''toLowerCase''))"
| "call_to_lower_case h Null = Inl (TypeError (Reading ''toLowerCase''))"
| "call_to_lower_case h v = Inl (TypeError (Calling ''toLowerCase''))"

text \<open>
  \<open>v.map(x => `...${x}...`)\<close>: only an array has the method; the callback converts each
  element to a string, in order, and the first conversion that throws ends the call.
\<close>

fun map_template :: "'n host \<Rightarrow> (string \<Rightarrow> string) \<Rightarrow> 'n js_value list \<Rightarrow> js_error + string list" where
  "map_template h tpl [] = Inr []"
| "map_template h tpl (x # xs) =
     (case to_string h x of
        Inl e \<Rightarrow> Inl e
      | Inr s \<Rightarrow>
          (case map_template h tpl xs of
             Inl e \<Rightarrow> Inl e
           | Inr items \<Rightarrow> Inr (tpl s # items)))"

fun call_map :: "'n host \<Rightarrow> (string \<Rightarrow> string) \<Rightarrow> 'n js_value \<Rightarrow> js_error + string list" where
  "call_map h tpl (Arr xs) = map_template h tpl xs"
| "call_map h tpl Undefined = Inl (TypeError (Reading ''map''))"
| "call_map h tpl Null = Inl (TypeError (Reading ''map''))"
| "call_map h tpl v = Inl (TypeError (Calling ''map''))"

subsection \<open>The page\<close>

text \<open>The argument of \<open>fetch\<close>.\<close>

record request =
  req_url :: string
  req_method :: string
  req_headers :: "(string \<times> string) list"
  req_body :: string

datatype event =
    Alert string
  | Console_error js_error
  | Fetch request
  | Set_button_html string
  | Set_button_disabled bool
  | Set_results_display string
  | Set_header_class string
  | Set_body_html string
  | Scroll_into_view string

text \<open>
  The elements the script holds: the value of the text area \<open>emailContent\<close>, the button
  \<open>analyzeBtn\<close> (\<open>innerHTML\<close>, \<open>disabled\<close>), \<open>results.style.display\<close>,
  \<open>resultsHeader.className\<close> and \<open>resultsBody.innerHTML\<close>.
\<close>

record page =
  email_content :: string
  button_html :: string
  button_disabled :: bool
  results_display :: string
  header_class :: string
  body_html :: string
  journal :: "event list"

definition alert :: "string \<Rightarrow> page \<Rightarrow> page" where
  "alert msg p = p\<lparr>journal := journal p @ [Alert msg]\<rparr>"

definition console_error :: "js_error \<Rightarrow> page \<Rightarrow> page" where
  "console_error e p = p\<lparr>journal := journal p @ [Console_error e]\<rparr>"

definition fetch :: "request \<Rightarrow> page \<Rightarrow> page" where
  "fetch r p = p\<lparr>journal := journal p @ [Fetch r]\<rparr>"

definition set_button_html :: "string \<Rightarrow> page \<Rightarrow> page" where
  "set_button_html s p = p\<lparr>button_html := s, journal := journal p @ [Set_button_html s]\<rparr>"

definition set_button_disabled :: "bool \<Rightarrow> page \<Rightarrow> page" where
  "set_button_disabled b p =
     p\<lparr>button_disabled := b, journal := journal p @ [Set_button_disabled b]\<rparr>"

definition set_results_display :: "string \<Rightarrow> page \<Rightarrow> page" where
  "set_results_display s p =
     p\<lparr>results_display := s, journal := journal p @ [Set_results_display s]\<rparr>"

definition set_header_class :: "string \<Rightarrow> page \<Rightarrow> page" where
  "set_header_class s p = p\<lparr>header_class := s, journal := journal p @ [Set_header_class s]\<rparr>"

definition set_body_html :: "string \<Rightarrow> page \<Rightarrow> page" where
  "set_body_html s p = p\<lparr>body_html := s, journal := journal p @ [Set_body_html s]\<rparr>"

definition scroll_into_view :: "string \<Rightarrow> page \<Rightarrow> page" where
  "scroll_into_view behavior p = p\<lparr>journal := journal p @ [Scroll_into_view behavior]\<rparr>"

subsection \<open>displayResults\<close>

text \<open>The \<open>switch (risk_level)\<close>: \<open>(alertClass, riskIcon, recommendation)\<close>.\<close>

fun risk_switch :: "'n js_value \<Rightarrow> string \<times> string \<times> string" where
  "risk_switch (Str s) =
     (if s = ''ALTO'' then
        (''alert-danger'', siren,
         ''NO interact'' @ u_acute @ ''es con este correo. Es muy probable que sea phishing.'')
      else if s = ''MEDIO'' then
        (''alert-warning'', warning_sign @ vs16,
         ''Ten precauci'' @ o_acute @ ''n. Verifica la fuente antes de realizar cualquier acci'' @ o_acute @ ''n.'')
      else
        (''alert-success'', check_mark,
         ''El correo parece seguro, pero siempre mant'' @ e_acute @ ''n precauci'' @ o_acute @ ''n.''))"
| "risk_switch v =
     (''alert-success'', check_mark,
      ''El correo parece seguro, pero siempre mant'' @ e_acute @ ''n precauci'' @ o_acute @ ''n.'')"

text \<open>The template of one keyword badge and of one URL list item (the arrow functions).\<close>

definition keyword_badge :: "string \<Rightarrow> markup" where
  "keyword_badge keyword =
     ''\<newline>'' @
     ''                            <span class=\"badge bg-warning text-dark\">'' @ keyword @ ''</span>\<newline>'' @
     ''                        ''"

definition url_item :: "string \<Rightarrow> markup" where
  "url_item url =
     ''\<newline>'' @
     ''                            <li class=\"list-group-item list-group-item-warning\">\<newline>'' @
     ''                                <code>'' @ url @ ''</code>\<newline>'' @
     ''                            </li>\<newline>'' @
     ''                        ''"

text \<open>The templates of the two evidence blocks, around the joined items.\<close>

definition keywords_block :: "markup \<Rightarrow> markup" where
  "keywords_block badges =
     ''\<newline>'' @
     ''                <div class=\"mt-3\">\<newline>'' @
     ''                    <h6>'' @ magnifier @ '' Palabras clave sospechosas detectadas:</h6>\<newline>'' @
     ''                    <div class=\"d-flex flex-wrap gap-2\">\<newline>'' @
     ''                        '' @ badges @ ''\<newline>'' @
     ''                    </div>\<newline>'' @
     ''                </div>\<newline>'' @
     ''            ''"

definition urls_block :: "markup \<Rightarrow> markup" where
  "urls_block items =
     ''\<newline>'' @
     ''                <div class=\"mt-3\">\<newline>'' @
     ''                    <h6>'' @ link_sign @ '' URLs sospechosas encontradas:</h6>\<newline>'' @
     ''                    <ul class=\"list-group\">\<newline>'' @
     ''                        '' @ items @ ''\<newline>'' @
     ''                    </ul>\<newline>'' @
     ''                </div>\<newline>'' @
     ''            ''"

text \<open>
  \<open>xs.length > 0 ? `block around ${xs.map(item).join('')}` : ''\<close>, for the keywords and for
  the URLs.
\<close>

definition evidence_part ::
  "'n host \<Rightarrow> (markup \<Rightarrow> markup) \<Rightarrow> (string \<Rightarrow> markup) \<Rightarrow> 'n js_value \<Rightarrow> js_error + markup" where
  "evidence_part h block item xs =
     (case length_gt_zero h xs of
        Inl e \<Rightarrow> Inl e
      | Inr nonempty \<Rightarrow>
          if nonempty then
            (case call_map h item xs of
               Inl e \<Rightarrow> Inl e
             | Inr items \<Rightarrow> Inr (block (concat items)))
          else Inr [])"

text \<open>The template assigned to \<open>resultsBody.innerHTML\<close>, with its substitutions as arguments.\<close>

definition results_body ::
  "string \<Rightarrow> string \<Rightarrow> string \<Rightarrow> string \<Rightarrow> string \<Rightarrow> string \<Rightarrow> markup \<Rightarrow> markup \<Rightarrow> string
     \<Rightarrow> markup" where
  "results_body alertClass level_lower riskIcon level score_text recommendation
       keywords_part urls_part total_text =
     ''\<newline>'' @
     ''            <div class=\"alert '' @ alertClass @ '' risk-'' @ level_lower @ ''\" role=\"alert\">\<newline>'' @
     ''                <h4 class=\"alert-heading\">'' @ riskIcon @ '' Nivel de Riesgo: '' @ level @ ''</h4>\<newline>'' @
     ''                <p><strong>Puntuaci'' @ o_acute @ ''n de riesgo:</strong> '' @ score_text @ '' puntos</p>\<newline>'' @
     ''                <hr>\<newline>'' @
     ''                <p class=\"mb-0\"><strong>Recomendaci'' @ o_acute @ ''n:</strong> '' @ recommendation @ ''</p>\<newline>'' @
     ''            </div>\<newline>'' @
     ''\<newline>'' @
     ''            '' @ keywords_part @ ''\<newline>'' @
     ''\<newline>'' @
     ''            '' @ urls_part @ ''\<newline>'' @
     ''\<newline>'' @
     ''            <div class=\"mt-3\">\<newline>'' @
     ''                <small class=\"text-muted\">\<newline>'' @
     ''                    '' @ chart @ '' Total de URLs encontradas: '' @ total_text @ '' | \<newline>'' @
     ''                    '' @ shield @ vs16 @ '' An'' @ a_acute @ ''lisis realizado con '' @ e_acute @ ''xito\<newline>'' @
     ''                </small>\<newline>'' @
     ''            </div>\<newline>'' @
     ''        ''"

text \<open>
  The evaluation of that template, substitution by substitution in the order of the text; the
  first one that throws ends it.
\<close>

definition render_body ::
  "'n host \<Rightarrow> string \<times> string \<times> string \<Rightarrow> 'n js_value \<Rightarrow> 'n js_value \<Rightarrow> 'n js_value \<Rightarrow>
     'n js_value \<Rightarrow> 'n js_value \<Rightarrow> js_error + markup" where
  "render_body h presentation risk_level score detected_keywords suspicious_urls total_urls =
     (case presentation of (alertClass, riskIcon, recommendation) \<Rightarrow>
     (case call_to_lower_case h risk_level of Inl e \<Rightarrow> Inl e | Inr level_lower \<Rightarrow>
     (case to_string h risk_level of Inl e \<Rightarrow> Inl e | Inr level \<Rightarrow>
     (case to_string h score of Inl e \<Rightarrow> Inl e | Inr score_text \<Rightarrow>
     (case evidence_part h keywords_block keyword_badge detected_keywords of
        Inl e \<Rightarrow> Inl e | Inr keywords_part \<Rightarrow>
     (case evidence_part h urls_block url_item suspicious_urls of
        Inl e \<Rightarrow> Inl e | Inr urls_part \<Rightarrow>
     (case to_string h total_urls of Inl e \<Rightarrow> Inl e | Inr total_text \<Rightarrow>
        Inr (results_body alertClass level_lower riskIcon level score_text recommendation
               keywords_part urls_part total_text))))))))"

text \<open>
  \<open>displayResults(analysis)\<close> returns the error it threw, if any, and the page as it left it.
  The destructuring throws on \<open>undefined\<close> and \<open>null\<close>; the header class is written before
  the body template is evaluated; the card is revealed last.
\<close>

definition displayResults :: "'n host \<Rightarrow> 'n js_value \<Rightarrow> page \<Rightarrow> js_error option \<times> page" where
  "displayResults h analysis p =
     (if nullish analysis then (Some (TypeError Destructuring), p)
      else
        let risk_level = own_property analysis ''risk_level'';
            risk_color = own_property analysis ''risk_color'';
            score = own_property analysis ''score'';
            detected_keywords = own_property analysis ''detected_keywords'';
            suspicious_urls = own_property analysis ''suspicious_urls'';
            total_urls = own_property analysis ''total_urls''
        in
          (case to_string h risk_color of
             Inl e \<Rightarrow> (Some e, p)
           | Inr color \<Rightarrow>
               let p1 = set_header_class (''card-header bg-'' @ color @ '' text-white'') p in
                 (case render_body h (risk_switch risk_level) risk_level score detected_keywords
                         suspicious_urls total_urls of
                    Inl e \<Rightarrow> (Some e, p1)
                  | Inr html \<Rightarrow>
                      (None,
                       scroll_into_view ''smooth''
                         (set_results_display ''block'' (set_body_html html p1))))))"

subsection \<open>analyzeEmail\<close>

text \<open>
  What the two awaited promises do is given from outside: \<open>fetch\<close> rejects, or
  \<open>response.json()\<close> rejects, or it resolves to the parsed body, or one of them never settles
  and the function never resumes. The function runs alone: no other handler of the page runs
  between its steps.
\<close>

datatype 'n network =
    Fetch_rejects string
  | Json_rejects string
  | Json_resolves "'n js_value"
  | Never_settles

definition analyze_request :: "'n host \<Rightarrow> string \<Rightarrow> request" where
  "analyze_request h emailContent =
     \<lparr>req_url = ''/analyze'',
      req_method = ''POST'',
      req_headers = [(''Content-Type'', ''application/json'')],
      req_body = json_stringify h (Obj [(''email_content'', Str emailContent)])\<rparr>"

text \<open>The statements of the \<open>try\<close> block that follow the two awaits.\<close>

definition try_block :: "'n host \<Rightarrow> 'n js_value \<Rightarrow> page \<Rightarrow> js_error option \<times> page" where
  "try_block h data p =
     (case get_own data ''error'' of
        Inl e \<Rightarrow> (Some e, p)
      | Inr err \<Rightarrow>
          if truthy h err then
            (case to_string h err of
               Inl e \<Rightarrow> (Some e, p)
             | Inr m \<Rightarrow> (Some (Error m), p))
          else
            (case get_own data ''analysis'' of
               Inl e \<Rightarrow> (Some e, p)
             | Inr analysis \<Rightarrow> displayResults h analysis p))"

text \<open>The \<open>catch\<close> block and the \<open>finally\<close> block.\<close>

definition catch_block :: "'n host \<Rightarrow> js_error \<Rightarrow> page \<Rightarrow> page" where
  "catch_block h e p =
     alert (''Error al analizar el correo: '' @ message_of h e) (console_error e p)"

definition finally_block :: "page \<Rightarrow> page" where
  "finally_block p =
     set_button_disabled False (set_button_html (magnifier @ '' Analizar Correo'') p)"

definition analyzeEmail :: "'n host \<Rightarrow> 'n network \<Rightarrow> page \<Rightarrow> page" where
  "analyzeEmail h net p =
     (let emailContent = trim h (email_content p) in
      if emailContent = [] then
        alert (''Por favor, ingresa el contenido del correo electr'' @ o_acute @ ''nico'') p
      else
        let p1 = set_results_display ''none''
                   (set_button_disabled True
                     (set_button_html (hourglass @ '' Analizando...'') p));
            p2 = fetch (analyze_request h emailContent) p1
        in case net of
             Never_settles \<Rightarrow> p2
           | Fetch_rejects m \<Rightarrow> finally_block (catch_block h (Rejected m) p2)
           | Json_rejects m \<Rightarrow> finally_block (catch_block h (Rejected m) p2)
           | Json_resolves data \<Rightarrow>
               (case try_block h data p2 of
                  (None, p3) \<Rightarrow> finally_block p3
                | (Some e, p3) \<Rightarrow> finally_block (catch_block h e p3)))"

subsection \<open>The analysis result of the wire contract\<close>

text \<open>
  The body of a successful answer is \<open>{"analysis": {...}}\<close> with six fields: two strings, two
  numbers and two arrays of strings. \<open>analysis_value\<close> is that object as a parsed value.
\<close>

record 'n analysis_result =
  risk_level :: string
  risk_color :: string
  score :: 'n
  detected_keywords :: "string list"
  suspicious_urls :: "string list"
  total_urls :: 'n

definition analysis_value :: "'n analysis_result \<Rightarrow> 'n js_value" where
  "analysis_value r =
     Obj [(''risk_level'', Str (risk_level r)),
          (''risk_color'', Str (risk_color r)),
          (''score'', Num (score r)),
          (''detected_keywords'', Arr (map Str (detected_keywords r))),
          (''suspicious_urls'', Arr (map Str (suspicious_urls r))),
          (''total_urls'', Num (total_urls r))]"

subsection \<open>A host for evaluating examples\<close>

text \<open>
  Numbers are integers, printed in decimal. Trimming removes the ASCII white space and line
  terminators, lower-casing maps the ASCII capitals, a string is greater than zero when it
  is a run of decimal digits that are not all \<open>0\<close>. \<open>JSON.stringify\<close> escapes the quote, the
  backslash and the control characters of a string. The examples stay within what these
  functions share with a browser: ASCII text and small integers.
\<close>

definition is_ascii_space :: "char \<Rightarrow> bool" where
  "is_ascii_space c = (c = CHR '' '' \<or> c = CHR 0x09 \<or> c = CHR 0x0A \<or> c = CHR 0x0B \<or> c = CHR 0x0C \<or> c = CHR 0x0D)"

definition ascii_trim :: "string \<Rightarrow> string" where
  "ascii_trim s = rev (dropWhile is_ascii_space (rev (dropWhile is_ascii_space s)))"

definition ascii_lower :: "string \<Rightarrow> string" where
  "ascii_lower s =
     map (\<lambda>c. case map_of (zip ''ABCDEFGHIJKLMNOPQRSTUVWXYZ'' ''abcdefghijklmnopqrstuvwxyz'') c of
                None \<Rightarrow> c
              | Some l \<Rightarrow> l) s"

definition digit_char :: "nat \<Rightarrow> char" where
  "digit_char d = ''0123456789'' ! (d mod 10)"

fun decimal :: "nat \<Rightarrow> string" where
  "decimal n = (if n < 10 then [digit_char n] else decimal (n div 10) @ [digit_char (n mod 10)])"

definition int_to_string :: "int \<Rightarrow> string" where
  "int_to_string i = (if i < 0 then ''-'' @ decimal (nat (- i)) else decimal (nat i))"

definition digits_gt_zero :: "string \<Rightarrow> bool" where
  "digits_gt_zero s =
     (s \<noteq> [] \<and> list_all (\<lambda>c. List.member ''0123456789'' c) s
      \<and> \<not> list_all (\<lambda>c. c = CHR ''0'') s)"

definition hex_char :: "nat \<Rightarrow> char" where
  "hex_char d = ''0123456789abcdef'' ! (d mod 16)"

definition quote_char :: "char \<Rightarrow> string" where
  "quote_char c =
     (if c = CHR 0x22 then [CHR 0x5C, CHR 0x22]
      else if c = CHR 0x5C then [CHR 0x5C, CHR 0x5C]
      else if c = CHR 0x08 then [CHR 0x5C, CHR ''b'']
      else if c = CHR 0x0C then [CHR 0x5C, CHR ''f'']
      else if c = CHR 0x0A then [CHR 0x5C, CHR ''n'']
      else if c = CHR 0x0D then [CHR 0x5C, CHR ''r'']
      else if c = CHR 0x09 then [CHR 0x5C, CHR ''t'']
      else if (of_char c :: nat) < 32 then
        [CHR 0x5C, CHR ''u'', CHR ''0'', CHR ''0'',
         hex_char ((of_char c :: nat) div 16), hex_char ((of_char c :: nat) mod 16)]
      else [c])"

definition quote_string :: "string \<Rightarrow> string" where
  "quote_string s = [CHR 0x22] @ concat (map quote_char s) @ [CHR 0x22]"

fun stringify :: "int js_value \<Rightarrow> string"
  and stringify_elements :: "int js_value list \<Rightarrow> string"
  and stringify_members :: "bool \<Rightarrow> (string \<times> int js_value) list \<Rightarrow> string" where
  "stringify Undefined = ''null''"
| "stringify Null = ''null''"
| "stringify (Bool b) = (if b then ''true'' else ''false'')"
| "stringify (Num n) = int_to_string n"
| "stringify (Str s) = quote_string s"
| "stringify (Arr xs) = ''['' @ stringify_elements xs @ '']''"
| "stringify (Obj kvs) = ''{'' @ stringify_members True kvs @ ''}''"
| "stringify_elements [] = ''''"
| "stringify_elements [x] = stringify x"
| "stringify_elements (x # y # ys) = stringify x @ '','' @ stringify_elements (y # ys)"
| "stringify_members first [] = ''''"
| "stringify_members first ((k, v) # kvs) =
     (if v = Undefined then stringify_members first kvs
      else (if first then '''' else '','') @ quote_string k @ '':'' @ stringify v
           @ stringify_members False kvs)"

definition sample_type_error_message :: "type_error_site \<Rightarrow> string" where
  "sample_type_error_message site =
     (case site of
        Destructuring \<Rightarrow> ''Cannot destructure a value that is undefined or null''
      | Reading name \<Rightarrow> ''Cannot read property '' @ name @ '' of undefined or null''
      | Calling name \<Rightarrow> name @ '' is not a function''
      | To_primitive \<Rightarrow> ''Cannot convert object to primitive value'')"

definition sample_host :: "int host" where
  "sample_host =
     \<lparr>trim = ascii_trim,
      to_lower_case = ascii_lower,
      number_to_string = int_to_string,
      number_truthy = (\<lambda>n. n \<noteq> 0),
      number_gt_zero = (\<lambda>n. 0 < n),
      string_gt_zero = digits_gt_zero,
      json_stringify = stringify,
      type_error_message = sample_type_error_message\<rparr>"

text \<open>A page as it is before the first submission, with the given text in the text area.\<close>

definition fresh_page :: "string \<Rightarrow> page" where
  "fresh_page content =
     \<lparr>email_content = content,
      button_html = magnifier @ '' Analizar Correo'',
      button_disabled = False,
      results_display = ''none'',
      header_class = ''card-header'',
      body_html = '''',
      journal = []\<rparr>"

text \<open>The answers of scenarios A and B of the specification.\<close>

definition scenario_a :: "int analysis_result" where
  "scenario_a =
     \<lparr>risk_level = ''ALTO'', risk_color = ''danger'', score = 85,
      detected_keywords = [''free'', ''click''],
      suspicious_urls = [''http://bit.ly/x''], total_urls = 1\<rparr>"

definition scenario_b :: "int analysis_result" where
  "scenario_b =
     \<lparr>risk_level = ''BAJO'', risk_color = ''success'', score = 0,
      detected_keywords = [], suspicious_urls = [], total_urls = 0\<rparr>"

subsection \<open>Reading the journal\<close>

text \<open>The entries that write the button, and the entries that send a request.\<close>

fun touches_button :: "event \<Rightarrow> bool" where
  "touches_button (Set_button_html s) = True"
| "touches_button (Set_button_disabled b) = True"
| "touches_button e = False"

fun is_fetch :: "event \<Rightarrow> bool" where
  "is_fetch (Fetch r) = True"
| "is_fetch e = False"

text \<open>The entries of the \<open>catch\<close> block.\<close>

fun is_alert :: "event \<Rightarrow> bool" where
  "is_alert (Alert s) = True"
| "is_alert e = False"

fun is_console_error :: "event \<Rightarrow> bool" where
  "is_console_error (Console_error e) = True"
| "is_console_error e = False"

section \<open>Facts about the embedding\<close>

subsection \<open>The renderer on an analysis result of the wire contract\<close>

lemma map_template_strings: "map_template h tpl (map Str ks) = Inr (map tpl ks)"
  by (induction ks) simp_all

lemma evidence_part_strings:
  "evidence_part h block item (Arr (map Str ks)) =
     Inr (if ks = [] then [] else block (concat (map item ks)))"
  by (simp add: evidence_part_def map_template_strings)

lemma own_property_analysis:
  "own_property (analysis_value r) ''risk_level'' = Str (risk_level r)"
  "own_property (analysis_value r) ''risk_color'' = Str (risk_color r)"
  "own_property (analysis_value r) ''score'' = Num (score r)"
  "own_property (analysis_value r) ''detected_keywords'' = Arr (map Str (detected_keywords r))"
  "own_property (analysis_value r) ''suspicious_urls'' = Arr (map Str (suspicious_urls r))"
  "own_property (analysis_value r) ''total_urls'' = Num (total_urls r)"
  by (simp_all add: analysis_value_def)

lemma nullish_analysis: "\<not> nullish (analysis_value r)"
  by (simp add: nullish_def analysis_value_def)

lemma displayResults_analysis:
  fixes h :: "'n host"
  shows "displayResults h (analysis_value r) p =
     (None,
      scroll_into_view ''smooth'' (set_results_display ''block''
        (set_body_html
           (case risk_switch (Str (risk_level r) :: 'n js_value) of (alertClass, riskIcon, recommendation) \<Rightarrow>
              results_body alertClass (to_lower_case h (risk_level r)) riskIcon (risk_level r)
                (number_to_string h (score r)) recommendation
                (if detected_keywords r = [] then []
                 else keywords_block (concat (map keyword_badge (detected_keywords r))))
                (if suspicious_urls r = [] then []
                 else urls_block (concat (map url_item (suspicious_urls r))))
                (number_to_string h (total_urls r)))
           (set_header_class (''card-header bg-'' @ risk_color r @ '' text-white'') p))))"
  by (simp add: displayResults_def nullish_analysis own_property_analysis render_body_def
      evidence_part_strings split: prod.splits)

lemma body_html_analysis:
  fixes h :: "'n host"
  shows "body_html (snd (displayResults h (analysis_value r) p)) =
     (case risk_switch (Str (risk_level r) :: 'n js_value) of (alertClass, riskIcon, recommendation) \<Rightarrow>
        results_body alertClass (to_lower_case h (risk_level r)) riskIcon (risk_level r)
          (number_to_string h (score r)) recommendation
          (if detected_keywords r = [] then []
           else keywords_block (concat (map keyword_badge (detected_keywords r))))
          (if suspicious_urls r = [] then []
           else urls_block (concat (map url_item (suspicious_urls r))))
          (number_to_string h (total_urls r)))"
  by (simp add: displayResults_analysis scroll_into_view_def set_results_display_def
      set_body_html_def)

lemma header_class_analysis:
  "header_class (snd (displayResults h (analysis_value r) p)) =
     ''card-header bg-'' @ risk_color r @ '' text-white''"
  by (simp add: displayResults_analysis scroll_into_view_def set_results_display_def
      set_body_html_def set_header_class_def)

lemma inj_keyword_badge: "inj keyword_badge"
  by (rule injI) (simp add: keyword_badge_def)

lemma inj_url_item: "inj url_item"
  by (rule injI) (simp add: url_item_def)

subsection \<open>The renderer on any value\<close>

text \<open>
  Whatever it is given, \<open>displayResults\<close> ends in one of three ways: it throws before it has
  written anything, it throws after it has written the header class, or it writes the header
  class and the body, reveals the card and scrolls to it. Whether it throws does not depend on
  the page.
\<close>

lemma displayResults_shape:
  "(\<exists>e. displayResults h a p = (Some e, p))
   \<or> (\<exists>e c. displayResults h a p = (Some e, set_header_class c p))
   \<or> (\<exists>c b. displayResults h a p =
         (None, scroll_into_view ''smooth'' (set_results_display ''block''
                  (set_body_html b (set_header_class c p)))))"
  unfolding displayResults_def Let_def by (auto split: sum.splits)

lemma displayResults_error_page_free:
  "fst (displayResults h a p) = fst (displayResults h a q)"
  by (simp add: displayResults_def Let_def split: sum.splits)

lemma try_block_shape:
  "(\<exists>e. try_block h data p = (Some e, p))
   \<or> (\<exists>e c. try_block h data p = (Some e, set_header_class c p))
   \<or> (\<exists>c b. try_block h data p =
         (None, scroll_into_view ''smooth'' (set_results_display ''block''
                  (set_body_html b (set_header_class c p)))))"
  using displayResults_shape[of h "own_property data ''analysis''" p]
  by (auto simp: try_block_def get_own_def split: sum.splits)

lemma analyzeEmail_shape:
  assumes "trim h (email_content p) \<noteq> []"
  shows "\<exists>p2. p2 = fetch (analyze_request h (trim h (email_content p)))
                  (set_results_display ''none''
                    (set_button_disabled True
                      (set_button_html (hourglass @ '' Analizando...'') p)))
           \<and> ((net = Never_settles \<and> analyzeEmail h net p = p2)
              \<or> (\<exists>e. analyzeEmail h net p = finally_block (catch_block h e p2))
              \<or> (\<exists>e c. analyzeEmail h net p =
                    finally_block (catch_block h e (set_header_class c p2)))
              \<or> (\<exists>c b. analyzeEmail h net p =
                    finally_block (scroll_into_view ''smooth'' (set_results_display ''block''
                      (set_body_html b (set_header_class c p2))))))"
proof -
  let ?p2 = "fetch (analyze_request h (trim h (email_content p)))
                  (set_results_display ''none''
                    (set_button_disabled True
                      (set_button_html (hourglass @ '' Analizando...'') p)))"
  show ?thesis
  proof (cases net)
    case (Fetch_rejects m)
    then have "analyzeEmail h net p = finally_block (catch_block h (Rejected m) ?p2)"
      using assms by (simp add: analyzeEmail_def Let_def)
    then show ?thesis by blast
  next
    case (Json_rejects m)
    then have "analyzeEmail h net p = finally_block (catch_block h (Rejected m) ?p2)"
      using assms by (simp add: analyzeEmail_def Let_def)
    then show ?thesis by blast
  next
    case Never_settles
    then have "analyzeEmail h net p = ?p2"
      using assms by (simp add: analyzeEmail_def Let_def)
    with Never_settles show ?thesis by blast
  next
    case (Json_resolves data)
    from try_block_shape[of h data ?p2]
    consider (early) e where "try_block h data ?p2 = (Some e, ?p2)"
      | (late) e c where "try_block h data ?p2 = (Some e, set_header_class c ?p2)"
      | (shown) c b where "try_block h data ?p2 =
           (None, scroll_into_view ''smooth'' (set_results_display ''block''
                    (set_body_html b (set_header_class c ?p2))))"
      by blast
    then show ?thesis
    proof cases
      case early
      then have "analyzeEmail h net p = finally_block (catch_block h e ?p2)"
        using assms by (simp add: analyzeEmail_def Let_def Json_resolves)
      then show ?thesis by blast
    next
      case late
      then have "analyzeEmail h net p =
          finally_block (catch_block h e (set_header_class c ?p2))"
        using assms by (simp add: analyzeEmail_def Let_def Json_resolves)
      then show ?thesis by blast
    next
      case shown
      then have "analyzeEmail h net p =
          finally_block (scroll_into_view ''smooth'' (set_results_display ''block''
            (set_body_html b (set_header_class c ?p2))))"
        using assms by (simp add: analyzeEmail_def Let_def Json_resolves)
      then show ?thesis by blast
    qed
  qed
qed

lemmas page_ops =
  alert_def console_error_def fetch_def set_button_html_def set_button_disabled_def
  set_results_display_def set_header_class_def set_body_html_def scroll_into_view_def
  catch_block_def finally_block_def

lemma email_content_kept:
  "email_content (analyzeEmail h net p) = email_content p"
proof (cases "trim h (email_content p) = []")
  case True
  then show ?thesis by (simp add: analyzeEmail_def alert_def)
next
  case False
  from analyzeEmail_shape[OF False, of net] show ?thesis
    by (auto simp: page_ops)
qed

text \<open>
  A string conversion throws only the \<open>TypeError\<close> of an object without a primitive value.
\<close>

lemma to_string_error:
  "to_string h v = Inl e \<Longrightarrow> e = TypeError To_primitive"
  "join_elements h xs = Inl e \<Longrightarrow> e = TypeError To_primitive"
  by (induction h v and h xs arbitrary: e and e rule: to_string_join_elements.induct)
     (auto split: option.splits sum.splits js_value.splits if_splits)

text \<open>An object without its \<open>error\<close> binding keeps every other property.\<close>

lemma map_of_without_key:
  "map_of (filter (\<lambda>kv. fst kv \<noteq> k) kvs) name = (if name = k then None else map_of kvs name)"
  by (induction kvs) auto

lemma own_property_without_error:
  "own_property (Obj (filter (\<lambda>kv. fst kv \<noteq> ''error'') kvs)) ''error'' = Undefined"
  "own_property (Obj (filter (\<lambda>kv. fst kv \<noteq> ''error'') kvs)) ''analysis''
     = own_property (Obj kvs) ''analysis''"
  by (simp_all add: map_of_without_key)

text \<open>
  The values on which the renderer is sure to throw: \<open>undefined\<close> and \<open>null\<close>, a value whose
  \<open>risk_level\<close> is not a string, and a value whose \<open>detected_keywords\<close> or \<open>suspicious_urls\<close> is
  \<open>undefined\<close> or \<open>null\<close>.
\<close>

lemma length_of_nullish:
  "nullish v \<Longrightarrow> length_gt_zero h v = Inl (TypeError (Reading ''length''))"
  by (cases v) (simp_all add: nullish_def)

lemma lower_case_of_non_string:
  "\<forall>s. v \<noteq> Str s \<Longrightarrow> \<exists>e. call_to_lower_case h v = Inl e"
  by (cases v) simp_all

lemma displayResults_throws:
  assumes "nullish a
           \<or> (\<forall>s. own_property a ''risk_level'' \<noteq> Str s)
           \<or> nullish (own_property a ''detected_keywords'')
           \<or> nullish (own_property a ''suspicious_urls'')"
  shows "\<exists>e. fst (displayResults h a p) = Some e"
proof (cases "nullish a")
  case True
  then show ?thesis by (simp add: displayResults_def)
next
  case False
  show ?thesis
  proof (cases "\<forall>s. own_property a ''risk_level'' \<noteq> Str s")
    case True
    from lower_case_of_non_string[OF this] obtain e
      where "call_to_lower_case h (own_property a ''risk_level'') = Inl e" by blast
    then show ?thesis
      using False
      by (simp add: displayResults_def Let_def render_body_def split: sum.splits prod.splits)
  next
    case no_level: False
    with assms \<open>\<not> nullish a\<close>
    have lists: "nullish (own_property a ''detected_keywords'')
                 \<or> nullish (own_property a ''suspicious_urls'')"
      by blast
    then show ?thesis
      using \<open>\<not> nullish a\<close>
      by (auto simp: displayResults_def Let_def render_body_def evidence_part_def
          length_of_nullish split: sum.splits prod.splits)
  qed
qed

subsection \<open>Pieces of the markup\<close>

lemma sublist_in_prefix: "sublist xs ys \<Longrightarrow> sublist xs (ps @ ys)"
  unfolding sublist_def by (metis append_assoc)

lemma sublist_three: "sublist (x @ y @ z) (x @ y @ z @ rest)"
  unfolding sublist_def by (metis append_Nil append_assoc)

lemma sublist_trans: "sublist xs ys \<Longrightarrow> sublist ys zs \<Longrightarrow> sublist xs zs"
  unfolding sublist_def by (metis append_assoc)

lemma sublist_concat_map: "x \<in> set xs \<Longrightarrow> sublist (f x) (concat (map f xs))"
proof (induction xs)
  case Nil
  then show ?case by simp
next
  case (Cons a xs)
  then show ?case
    by (auto intro: sublist_in_prefix)
qed

lemma keyword_in_badge:
  "sublist (''<span class=\"badge bg-warning text-dark\">'' @ k @ ''</span>'') (keyword_badge k)"
proof -
  have "keyword_badge k =
      ''\<newline>                            ''
      @ (''<span class=\"badge bg-warning text-dark\">'' @ k @ ''</span>'')
      @ ''\<newline>                        ''"
    by (simp add: keyword_badge_def)
  then show ?thesis
    by (simp only: sublist_appendI)
qed

lemma url_in_item: "sublist (''<code>'' @ u @ ''</code>'') (url_item u)"
proof -
  have "url_item u =
      (''\<newline>'' @
       ''                            <li class=\"list-group-item list-group-item-warning\">\<newline>'' @
       ''                                '')
      @ (''<code>'' @ u @ ''</code>'')
      @ (''\<newline>'' @
         ''                            </li>\<newline>'' @
         ''                        '')"
    by (simp add: url_item_def)
  then show ?thesis
    by (simp only: sublist_appendI)
qed

lemma inner_in_keywords_block: "sublist inner (keywords_block inner)"
  unfolding keywords_block_def
  by (rule sublist_append_rightI | rule sublist_in_prefix)+

lemma inner_in_urls_block: "sublist inner (urls_block inner)"
  unfolding urls_block_def
  by (rule sublist_append_rightI | rule sublist_in_prefix)+

lemma keywords_in_results_body: "sublist kp (results_body a b c d e f kp up t)"
  unfolding results_body_def
  by (rule sublist_append_rightI | rule sublist_in_prefix)+

lemma urls_in_results_body: "sublist up (results_body a b c d e f kp up t)"
  unfolding results_body_def
  by (rule sublist_append_rightI | rule sublist_in_prefix)+

lemma level_in_results_body:
  "sublist ('' Nivel de Riesgo: '' @ d @ ''</h4>\<newline>'') (results_body a b c d e f kp up t)"
  unfolding results_body_def
  by (rule sublist_three | rule sublist_in_prefix)+

lemma score_in_results_body:
  "sublist (''n de riesgo:</strong> '' @ e @ '' puntos</p>\<newline>'')
     (results_body a b c d e f kp up t)"
  unfolding results_body_def
  by (rule sublist_three | rule sublist_in_prefix)+

subsection \<open>Evaluating the examples\<close>

lemmas sample_eval =
  sample_host_def fresh_page_def ascii_trim_def is_ascii_space_def ascii_lower_def
  int_to_string_def digit_char_def scenario_a_def scenario_b_def

lemma hola_not_blank: "trim sample_host (email_content (fresh_page ''hola'')) = ''hola''"
  by (simp add: sample_eval)

section \<open>The claims of the specification\<close>

subsection \<open>C1: the tier table\<close>

text \<open>
  Claim C1. For every analysis result the renderer does not throw, and the body it writes is
  the template filled with the row of the table that the risk level selects: \<open>ALTO\<close> gives
  \<open>alert-danger\<close>, the siren and the first recommendation; \<open>MEDIO\<close> gives \<open>alert-warning\<close>,
  the warning sign and the second recommendation; every other level, \<open>BAJO\<close> included, gives
  \<open>alert-success\<close>, the check mark and the third recommendation.
\<close>

theorem C1_tier_presentation:
  "fst (displayResults h (analysis_value r) p) = None
   \<and> body_html (snd (displayResults h (analysis_value r) p)) =
       (if risk_level r = ''ALTO'' then
          results_body ''alert-danger'' (to_lower_case h (risk_level r)) siren (risk_level r)
            (number_to_string h (score r))
            (''NO interact'' @ u_acute @ ''es con este correo. Es muy probable que sea phishing.'')
            (if detected_keywords r = [] then []
             else keywords_block (concat (map keyword_badge (detected_keywords r))))
            (if suspicious_urls r = [] then []
             else urls_block (concat (map url_item (suspicious_urls r))))
            (number_to_string h (total_urls r))
        else if risk_level r = ''MEDIO'' then
          results_body ''alert-warning'' (to_lower_case h (risk_level r)) (warning_sign @ vs16)
            (risk_level r) (number_to_string h (score r))
            (''Ten precauci'' @ o_acute @ ''n. Verifica la fuente antes de realizar cualquier acci''
               @ o_acute @ ''n.'')
            (if detected_keywords r = [] then []
             else keywords_block (concat (map keyword_badge (detected_keywords r))))
            (if suspicious_urls r = [] then []
             else urls_block (concat (map url_item (suspicious_urls r))))
            (number_to_string h (total_urls r))
        else
          results_body ''alert-success'' (to_lower_case h (risk_level r)) check_mark
            (risk_level r) (number_to_string h (score r))
            (''El correo parece seguro, pero siempre mant'' @ e_acute @ ''n precauci'' @ o_acute @ ''n.'')
            (if detected_keywords r = [] then []
             else keywords_block (concat (map keyword_badge (detected_keywords r))))
            (if suspicious_urls r = [] then []
             else urls_block (concat (map url_item (suspicious_urls r))))
            (number_to_string h (total_urls r)))"
proof -
  have total: "fst (displayResults h (analysis_value r) p) = None"
    by (simp add: displayResults_analysis)
  show ?thesis
    unfolding body_html_analysis using total by simp
qed

text \<open>
  Scenario B (\<open>BAJO\<close>) falls to the default row and scenario A (\<open>ALTO\<close>) to the first.
\<close>

theorem C1_tier_presentation_witness:
  "fst (displayResults sample_host (analysis_value scenario_b) (fresh_page ''hola'')) = None
   \<and> body_html (snd (displayResults sample_host (analysis_value scenario_b) (fresh_page ''hola''))) =
       results_body ''alert-success'' ''bajo'' check_mark ''BAJO'' ''0''
         (''El correo parece seguro, pero siempre mant'' @ e_acute @ ''n precauci'' @ o_acute @ ''n.'')
         [] [] ''0''
   \<and> body_html (snd (displayResults sample_host (analysis_value scenario_a) (fresh_page ''hola''))) =
       results_body ''alert-danger'' ''alto'' siren ''ALTO'' ''85''
         (''NO interact'' @ u_acute @ ''es con este correo. Es muy probable que sea phishing.'')
         (keywords_block (keyword_badge ''free'' @ keyword_badge ''click''))
         (urls_block (url_item ''http://bit.ly/x'')) ''1''"
  using C1_tier_presentation[of sample_host scenario_b "fresh_page ''hola''"]
    C1_tier_presentation[of sample_host scenario_a "fresh_page ''hola''"]
  by (simp add: sample_eval)

subsection \<open>C2: empty input\<close>

text \<open>
  Claim C2. When the trimmed content of the text area is empty, \<open>analyzeEmail\<close> raises the
  alert that asks for the content and does nothing else: the page is unchanged and the journal
  gains that one entry, so no request is built or sent and the button is not touched, whatever
  the network would have answered.
\<close>

theorem C2_empty_input:
  assumes "trim h (email_content p) = []"
  shows "analyzeEmail h net p =
           p\<lparr>journal := journal p @
               [Alert (''Por favor, ingresa el contenido del correo electr'' @ o_acute @ ''nico'')]\<rparr>"
  using assms by (simp add: analyzeEmail_def alert_def)

theorem C2_empty_input_witness:
  "trim sample_host (email_content (fresh_page [CHR '' '', CHR 0x0A, CHR 0x09])) = []
   \<and> analyzeEmail sample_host (Json_resolves (Obj [(''analysis'', analysis_value scenario_a)]))
         (fresh_page [CHR '' '', CHR 0x0A, CHR 0x09]) =
       (fresh_page [CHR '' '', CHR 0x0A, CHR 0x09])\<lparr>journal :=
          [Alert (''Por favor, ingresa el contenido del correo electr'' @ o_acute @ ''nico'')]\<rparr>"
proof -
  have empty: "trim sample_host (email_content (fresh_page [CHR '' '', CHR 0x0A, CHR 0x09])) = []"
    by (simp add: sample_host_def fresh_page_def ascii_trim_def is_ascii_space_def)
  from C2_empty_input[OF empty] empty show ?thesis
    by (simp add: fresh_page_def)
qed

subsection \<open>C3: evidence blocks\<close>

text \<open>
  Claim C3. For every analysis result, the keyword part of the body is the empty string when
  \<open>detected_keywords\<close> is empty and the keyword block around the badges otherwise, and it is
  empty only then; the same holds for the URL part and \<open>suspicious_urls\<close>. Neither part
  changes when \<open>total_urls\<close> changes.
\<close>

theorem C3_evidence_blocks:
  fixes h :: "'n host"
  shows "evidence_part h keywords_block keyword_badge
           (own_property (analysis_value r) ''detected_keywords'') =
         Inr (if detected_keywords r = [] then []
              else keywords_block (concat (map keyword_badge (detected_keywords r))))
     \<and> evidence_part h urls_block url_item
           (own_property (analysis_value r) ''suspicious_urls'') =
         Inr (if suspicious_urls r = [] then []
              else urls_block (concat (map url_item (suspicious_urls r))))
     \<and> (evidence_part h keywords_block keyword_badge
           (own_property (analysis_value r) ''detected_keywords'') = Inr []
          \<longleftrightarrow> detected_keywords r = [])
     \<and> (evidence_part h urls_block url_item
           (own_property (analysis_value r) ''suspicious_urls'') = Inr []
          \<longleftrightarrow> suspicious_urls r = [])
     \<and> body_html (snd (displayResults h (analysis_value r) p)) =
           (case risk_switch (Str (risk_level r) :: 'n js_value) of
              (alertClass, riskIcon, recommendation) \<Rightarrow>
                results_body alertClass (to_lower_case h (risk_level r)) riskIcon (risk_level r)
                  (number_to_string h (score r)) recommendation
                  (if detected_keywords r = [] then []
                   else keywords_block (concat (map keyword_badge (detected_keywords r))))
                  (if suspicious_urls r = [] then []
                   else urls_block (concat (map url_item (suspicious_urls r))))
                  (number_to_string h (total_urls r)))
     \<and> own_property (analysis_value (r\<lparr>total_urls := n\<rparr>)) ''detected_keywords'' =
         own_property (analysis_value r) ''detected_keywords''
     \<and> own_property (analysis_value (r\<lparr>total_urls := n\<rparr>)) ''suspicious_urls'' =
         own_property (analysis_value r) ''suspicious_urls''"
  by (simp add: body_html_analysis keywords_block_def urls_block_def own_property_analysis
      evidence_part_strings)

text \<open>
  Scenario B has no evidence, with any count of URLs.
\<close>

theorem C3_evidence_blocks_witness:
  "body_html (snd (displayResults sample_host (analysis_value scenario_b) (fresh_page ''hola''))) =
       results_body ''alert-success'' ''bajo'' check_mark ''BAJO'' ''0''
         (''El correo parece seguro, pero siempre mant'' @ e_acute @ ''n precauci'' @ o_acute @ ''n.'')
         [] [] ''0''
   \<and> body_html (snd (displayResults sample_host (analysis_value (scenario_b\<lparr>total_urls := 7\<rparr>))
         (fresh_page ''hola''))) =
       results_body ''alert-success'' ''bajo'' check_mark ''BAJO'' ''0''
         (''El correo parece seguro, pero siempre mant'' @ e_acute @ ''n precauci'' @ o_acute @ ''n.'')
         [] [] ''7''"
  using C3_evidence_blocks[of sample_host scenario_b "fresh_page ''hola''"]
    C3_evidence_blocks[of sample_host "scenario_b\<lparr>total_urls := 7\<rparr>" "fresh_page ''hola''"]
  by (simp add: sample_eval)

subsection \<open>C4: the button is restored\<close>

text \<open>
  Claim C4. When the trimmed content is not empty and the awaited promises settle, the
  journal of the run is: the button set to its loading label and disabled, the results hidden,
  one request, then entries that neither write the button nor send a request, and last the
  button set back to its idle label and enabled. This holds for every way the run can end (the
  results shown, a rejected promise, an error field, a \<open>TypeError\<close>), and the button is idle in
  the final page.
\<close>

theorem C4_button_restored:
  assumes "trim h (email_content p) \<noteq> []" and "net \<noteq> Never_settles"
  shows "\<exists>mid. journal (analyzeEmail h net p) =
             journal p
             @ [Set_button_html (hourglass @ '' Analizando...''), Set_button_disabled True,
                Set_results_display ''none'',
                Fetch (analyze_request h (trim h (email_content p)))]
             @ mid
             @ [Set_button_html (magnifier @ '' Analizar Correo''), Set_button_disabled False]
           \<and> filter touches_button mid = []
           \<and> filter is_fetch mid = []
           \<and> button_html (analyzeEmail h net p) = magnifier @ '' Analizar Correo''
           \<and> button_disabled (analyzeEmail h net p) = False"
proof -
  let ?p2 = "fetch (analyze_request h (trim h (email_content p)))
               (set_results_display ''none''
                 (set_button_disabled True
                   (set_button_html (hourglass @ '' Analizando...'') p)))"
  from analyzeEmail_shape[OF assms(1), of net] assms(2)
  consider (early) e where "analyzeEmail h net p = finally_block (catch_block h e ?p2)"
    | (late) e c where
        "analyzeEmail h net p = finally_block (catch_block h e (set_header_class c ?p2))"
    | (shown) c b where
        "analyzeEmail h net p =
           finally_block (scroll_into_view ''smooth'' (set_results_display ''block''
             (set_body_html b (set_header_class c ?p2))))"
    by blast
  then show ?thesis
  proof cases
    case early
    show ?thesis
      unfolding early
      by (rule exI[of _ "[Console_error e,
            Alert (''Error al analizar el correo: '' @ message_of h e)]"])
         (simp add: page_ops)
  next
    case late
    show ?thesis
      unfolding late
      by (rule exI[of _ "[Set_header_class c, Console_error e,
            Alert (''Error al analizar el correo: '' @ message_of h e)]"])
         (simp add: page_ops)
  next
    case shown
    show ?thesis
      unfolding shown
      by (rule exI[of _ "[Set_header_class c, Set_body_html b,
            Set_results_display ''block'', Scroll_into_view ''smooth'']"])
         (simp add: page_ops)
  qed
qed

theorem C4_button_restored_witness:
  "trim sample_host (email_content (fresh_page ''hola'')) \<noteq> []
   \<and> Fetch_rejects ''Failed to fetch'' \<noteq> (Never_settles :: int network)
   \<and> (\<exists>mid. journal (analyzeEmail sample_host (Fetch_rejects ''Failed to fetch'') (fresh_page ''hola'')) =
             journal (fresh_page ''hola'')
             @ [Set_button_html (hourglass @ '' Analizando...''), Set_button_disabled True,
                Set_results_display ''none'',
                Fetch (analyze_request sample_host (trim sample_host (email_content (fresh_page ''hola''))))]
             @ mid
             @ [Set_button_html (magnifier @ '' Analizar Correo''), Set_button_disabled False]
           \<and> filter touches_button mid = []
           \<and> filter is_fetch mid = []
           \<and> button_html (analyzeEmail sample_host (Fetch_rejects ''Failed to fetch'') (fresh_page ''hola''))
               = magnifier @ '' Analizar Correo''
           \<and> button_disabled (analyzeEmail sample_host (Fetch_rejects ''Failed to fetch'') (fresh_page ''hola''))
               = False)"
proof -
  have nonblank: "trim sample_host (email_content (fresh_page ''hola'')) \<noteq> []"
    by (simp add: hola_not_blank)
  have settles: "Fetch_rejects ''Failed to fetch'' \<noteq> (Never_settles :: int network)"
    by simp
  from nonblank settles C4_button_restored[OF nonblank settles] show ?thesis
    by (intro conjI)
qed

subsection \<open>C5: an error field in the answer\<close>

text \<open>
  Claim C5, as amended. Let the trimmed content be not empty. When the \<open>error\<close> property of
  the answer is truthy, the run throws inside the \<open>try\<close> block: \<open>Error m\<close> when the string
  conversion of the property is \<open>m\<close>, and the \<open>TypeError\<close> of the conversion when the conversion
  itself throws (an object with a property \<open>toString\<close> of its own). The error is logged, the
  alert is \<open>Error al analizar el correo: \<close> followed by its message, neither the header nor the
  body is written, the results stay hidden and the button is restored. In particular, when
  the property is a string \<open>m\<close> that is not empty, the error is \<open>Error m\<close> and the alert ends
  with \<open>m\<close>. When the \<open>error\<close> property of an answer object is falsy (the empty string, \<open>null\<close>,
  \<open>0\<close>, \<open>false\<close>) the run is the run on the same object without that property.
\<close>

theorem C5_truthy_error_field:
  assumes "trim h (email_content p) \<noteq> []"
  shows "(truthy h (own_property data ''error'') \<longrightarrow>
            analyzeEmail h (Json_resolves data) p =
              p\<lparr>button_html := magnifier @ '' Analizar Correo'',
                button_disabled := False,
                results_display := ''none'',
                journal := journal p
                  @ [Set_button_html (hourglass @ '' Analizando...''), Set_button_disabled True,
                     Set_results_display ''none'',
                     Fetch (analyze_request h (trim h (email_content p))),
                     Console_error
                       (case to_string h (own_property data ''error'') of
                          Inr m \<Rightarrow> Error m | Inl e \<Rightarrow> e),
                     Alert (''Error al analizar el correo: ''
                              @ message_of h
                                  (case to_string h (own_property data ''error'') of
                                     Inr m \<Rightarrow> Error m | Inl e \<Rightarrow> e)),
                     Set_button_html (magnifier @ '' Analizar Correo''),
                     Set_button_disabled False]\<rparr>)
     \<and> (to_string h (own_property data ''error'') = Inl e \<longrightarrow> e = TypeError To_primitive)
     \<and> (own_property data ''error'' = Str m \<and> m \<noteq> [] \<longrightarrow>
            analyzeEmail h (Json_resolves data) p =
              p\<lparr>button_html := magnifier @ '' Analizar Correo'',
                button_disabled := False,
                results_display := ''none'',
                journal := journal p
                  @ [Set_button_html (hourglass @ '' Analizando...''), Set_button_disabled True,
                     Set_results_display ''none'',
                     Fetch (analyze_request h (trim h (email_content p))),
                     Console_error (Error m),
                     Alert (''Error al analizar el correo: '' @ m),
                     Set_button_html (magnifier @ '' Analizar Correo''),
                     Set_button_disabled False]\<rparr>)
     \<and> (\<not> truthy h (own_property (Obj kvs) ''error'') \<longrightarrow>
            analyzeEmail h (Json_resolves (Obj kvs)) p =
              analyzeEmail h (Json_resolves (Obj (filter (\<lambda>kv. fst kv \<noteq> ''error'') kvs))) p)"
proof (intro conjI impI)
  assume field: "truthy h (own_property data ''error'')"
  then have "\<not> nullish data"
    by (cases data) (simp_all add: nullish_def)
  with field assms
  show "analyzeEmail h (Json_resolves data) p =
              p\<lparr>button_html := magnifier @ '' Analizar Correo'',
                button_disabled := False,
                results_display := ''none'',
                journal := journal p
                  @ [Set_button_html (hourglass @ '' Analizando...''), Set_button_disabled True,
                     Set_results_display ''none'',
                     Fetch (analyze_request h (trim h (email_content p))),
                     Console_error
                       (case to_string h (own_property data ''error'') of
                          Inr m \<Rightarrow> Error m | Inl e \<Rightarrow> e),
                     Alert (''Error al analizar el correo: ''
                              @ message_of h
                                  (case to_string h (own_property data ''error'') of
                                     Inr m \<Rightarrow> Error m | Inl e \<Rightarrow> e)),
                     Set_button_html (magnifier @ '' Analizar Correo''),
                     Set_button_disabled False]\<rparr>"
    by (cases "to_string h (own_property data ''error'')")
       (simp_all add: analyzeEmail_def Let_def try_block_def get_own_def page_ops)
next
  assume "to_string h (own_property data ''error'') = Inl e"
  then show "e = TypeError To_primitive"
    by (rule to_string_error)
next
  assume "own_property data ''error'' = Str m \<and> m \<noteq> []"
  then have field: "own_property data ''error'' = Str m" and nonempty: "m \<noteq> []"
    by simp_all
  from field have "\<not> nullish data"
    by (cases data) (simp_all add: nullish_def)
  with field nonempty assms
  show "analyzeEmail h (Json_resolves data) p =
              p\<lparr>button_html := magnifier @ '' Analizar Correo'',
                button_disabled := False,
                results_display := ''none'',
                journal := journal p
                  @ [Set_button_html (hourglass @ '' Analizando...''), Set_button_disabled True,
                     Set_results_display ''none'',
                     Fetch (analyze_request h (trim h (email_content p))),
                     Console_error (Error m),
                     Alert (''Error al analizar el correo: '' @ m),
                     Set_button_html (magnifier @ '' Analizar Correo''),
                     Set_button_disabled False]\<rparr>"
    by (simp add: analyzeEmail_def Let_def try_block_def get_own_def page_ops)
next
  assume falsy: "\<not> truthy h (own_property (Obj kvs) ''error'')"
  have "try_block h (Obj kvs) q =
          try_block h (Obj (filter (\<lambda>kv. fst kv \<noteq> ''error'') kvs)) q" for q
    using falsy own_property_without_error[of kvs]
    by (simp add: try_block_def get_own_def nullish_def del: own_property.simps)
  then show "analyzeEmail h (Json_resolves (Obj kvs)) p =
               analyzeEmail h (Json_resolves (Obj (filter (\<lambda>kv. fst kv \<noteq> ''error'') kvs))) p"
    by (simp add: analyzeEmail_def Let_def)
qed

text \<open>
  Scenario C of the specification; an error field whose conversion throws; and an empty error
  string next to an analysis, which is handled as the analysis alone.
\<close>

theorem C5_truthy_error_field_witness:
  "trim sample_host (email_content (fresh_page ''hola'')) \<noteq> []
   \<and> own_property (Obj [(''error'', Str ''malformed payload'')] :: int js_value) ''error''
       = Str ''malformed payload''
   \<and> ''malformed payload'' \<noteq> []
   \<and> analyzeEmail sample_host (Json_resolves (Obj [(''error'', Str ''malformed payload'')]))
         (fresh_page ''hola'') =
       (fresh_page ''hola'')\<lparr>journal :=
          [Set_button_html (hourglass @ '' Analizando...''), Set_button_disabled True,
           Set_results_display ''none'',
           Fetch \<lparr>req_url = ''/analyze'', req_method = ''POST'',
                  req_headers = [(''Content-Type'', ''application/json'')],
                  req_body = ''{\"email_content\":\"hola\"}''\<rparr>,
           Console_error (Error ''malformed payload''),
           Alert ''Error al analizar el correo: malformed payload'',
           Set_button_html (magnifier @ '' Analizar Correo''),
           Set_button_disabled False]\<rparr>
   \<and> truthy sample_host (own_property (Obj [(''error'', Obj [(''toString'', Num 1)])]) ''error'')
   \<and> to_string sample_host (own_property (Obj [(''error'', Obj [(''toString'', Num 1)])]) ''error'')
       = Inl (TypeError To_primitive)
   \<and> analyzeEmail sample_host (Json_resolves (Obj [(''error'', Obj [(''toString'', Num 1)])]))
         (fresh_page ''hola'') =
       (fresh_page ''hola'')\<lparr>journal :=
          [Set_button_html (hourglass @ '' Analizando...''), Set_button_disabled True,
           Set_results_display ''none'',
           Fetch \<lparr>req_url = ''/analyze'', req_method = ''POST'',
                  req_headers = [(''Content-Type'', ''application/json'')],
                  req_body = ''{\"email_content\":\"hola\"}''\<rparr>,
           Console_error (TypeError To_primitive),
           Alert ''Error al analizar el correo: Cannot convert object to primitive value'',
           Set_button_html (magnifier @ '' Analizar Correo''),
           Set_button_disabled False]\<rparr>
   \<and> \<not> truthy sample_host
         (own_property (Obj [(''error'', Str ''''), (''analysis'', analysis_value scenario_b)]) ''error'')
   \<and> analyzeEmail sample_host
         (Json_resolves (Obj [(''error'', Str ''''), (''analysis'', analysis_value scenario_b)]))
         (fresh_page ''hola'') =
       analyzeEmail sample_host
         (Json_resolves (Obj [(''analysis'', analysis_value scenario_b)])) (fresh_page ''hola'')"
proof -
  have nonblank: "trim sample_host (email_content (fresh_page ''hola'')) \<noteq> []"
    by (simp add: hola_not_blank)
  have field: "own_property (Obj [(''error'', Str ''malformed payload'')] :: int js_value) ''error''
       = Str ''malformed payload''"
    by simp
  have nonempty: "''malformed payload'' \<noteq> []"
    by simp
  have object_field:
    "truthy sample_host (own_property (Obj [(''error'', Obj [(''toString'', Num 1)])]) ''error'')"
    by simp
  have conversion:
    "to_string sample_host (own_property (Obj [(''error'', Obj [(''toString'', Num 1)])]) ''error'')
       = Inl (TypeError To_primitive)"
    by simp
  have falsy: "\<not> truthy sample_host
         (own_property (Obj [(''error'', Str ''''), (''analysis'', analysis_value scenario_b)]) ''error'')"
    by simp
  note service =
    C5_truthy_error_field[OF nonblank, of "Obj [(''error'', Str ''malformed payload'')]" _
      "''malformed payload''"]
  note thrown =
    C5_truthy_error_field[OF nonblank, of "Obj [(''error'', Obj [(''toString'', Num 1)])]"]
  note absent =
    C5_truthy_error_field[OF nonblank, of _ _ _
      "[(''error'', Str ''''), (''analysis'', analysis_value scenario_b)]"]
  have run1: "analyzeEmail sample_host (Json_resolves (Obj [(''error'', Str ''malformed payload'')]))
         (fresh_page ''hola'') =
       (fresh_page ''hola'')\<lparr>journal :=
          [Set_button_html (hourglass @ '' Analizando...''), Set_button_disabled True,
           Set_results_display ''none'',
           Fetch \<lparr>req_url = ''/analyze'', req_method = ''POST'',
                  req_headers = [(''Content-Type'', ''application/json'')],
                  req_body = ''{\"email_content\":\"hola\"}''\<rparr>,
           Console_error (Error ''malformed payload''),
           Alert ''Error al analizar el correo: malformed payload'',
           Set_button_html (magnifier @ '' Analizar Correo''),
           Set_button_disabled False]\<rparr>"
    using service field nonempty
    by (simp add: hola_not_blank analyze_request_def)
       (simp add: sample_host_def fresh_page_def quote_string_def quote_char_def)
  have run2: "analyzeEmail sample_host (Json_resolves (Obj [(''error'', Obj [(''toString'', Num 1)])]))
         (fresh_page ''hola'') =
       (fresh_page ''hola'')\<lparr>journal :=
          [Set_button_html (hourglass @ '' Analizando...''), Set_button_disabled True,
           Set_results_display ''none'',
           Fetch \<lparr>req_url = ''/analyze'', req_method = ''POST'',
                  req_headers = [(''Content-Type'', ''application/json'')],
                  req_body = ''{\"email_content\":\"hola\"}''\<rparr>,
           Console_error (TypeError To_primitive),
           Alert ''Error al analizar el correo: Cannot convert object to primitive value'',
           Set_button_html (magnifier @ '' Analizar Correo''),
           Set_button_disabled False]\<rparr>"
    using thrown object_field
    by (simp add: hola_not_blank analyze_request_def)
       (simp add: sample_host_def fresh_page_def quote_string_def quote_char_def
          sample_type_error_message_def)
  have run3: "analyzeEmail sample_host
         (Json_resolves (Obj [(''error'', Str ''''), (''analysis'', analysis_value scenario_b)]))
         (fresh_page ''hola'') =
       analyzeEmail sample_host
         (Json_resolves (Obj [(''analysis'', analysis_value scenario_b)])) (fresh_page ''hola'')"
    using absent falsy by simp
  from nonblank field nonempty run1 object_field conversion run2 falsy run3
  show ?thesis by (intro conjI)
qed

text \<open>
  The claim as it was stated, for every answer that has an \<open>error\<close> field, fails for a falsy
  one, since \<open>if (data.error)\<close> tests truthiness. With \<open>{"error": "", "analysis": ...}\<close> the
  results are rendered and revealed and nothing is alerted or logged; with \<open>{"error": ""}\<close>
  alone the error that is logged is the \<open>TypeError\<close> of the destructuring, not an \<open>Error\<close>
  carrying the empty message.
\<close>

theorem C5_counterexample:
  "own_property (Obj [(''error'', Str ''''), (''analysis'', analysis_value scenario_b)]) ''error''
     = Str ''''
   \<and> results_display
         (analyzeEmail sample_host
            (Json_resolves (Obj [(''error'', Str ''''), (''analysis'', analysis_value scenario_b)]))
            (fresh_page ''hola'')) = ''block''
   \<and> filter is_alert (journal
         (analyzeEmail sample_host
            (Json_resolves (Obj [(''error'', Str ''''), (''analysis'', analysis_value scenario_b)]))
            (fresh_page ''hola''))) = []
   \<and> filter is_console_error (journal
         (analyzeEmail sample_host
            (Json_resolves (Obj [(''error'', Str ''''), (''analysis'', analysis_value scenario_b)]))
            (fresh_page ''hola''))) = []
   \<and> filter is_console_error (journal
         (analyzeEmail sample_host (Json_resolves (Obj [(''error'', Str '''')])) (fresh_page ''hola'')))
       = [Console_error (TypeError Destructuring)]"
  by (simp add: analyzeEmail_def Let_def hola_not_blank try_block_def get_own_def nullish_def
      displayResults_analysis page_ops)
     (simp add: displayResults_def nullish_def page_ops fresh_page_def)

subsection \<open>C6: the header class\<close>

text \<open>
  Claim C6. For every analysis result the class written to the results header is
  \<open>card-header bg-\<close>, the \<open>risk_color\<close> of the result and \<open> text-white\<close>; the risk level does
  not enter it, so two results give the same class exactly when their colours are equal.
\<close>

theorem C6_header_class:
  fixes h :: "'n host"
  shows "header_class (snd (displayResults h (analysis_value r) p)) =
           ''card-header bg-'' @ risk_color r @ '' text-white''
         \<and> (header_class (snd (displayResults h (analysis_value r) p)) =
              header_class (snd (displayResults h (analysis_value r') p'))
              \<longleftrightarrow> risk_color r = risk_color r')"
  by (simp add: header_class_analysis)

text \<open>
  Two results of the same level and different colours.
\<close>

theorem C6_header_class_witness:
  "risk_level (scenario_a\<lparr>risk_color := ''warning''\<rparr>) = risk_level scenario_a
   \<and> header_class (snd (displayResults sample_host (analysis_value scenario_a) (fresh_page ''hola'')))
       = ''card-header bg-danger text-white''
   \<and> header_class (snd (displayResults sample_host
         (analysis_value (scenario_a\<lparr>risk_color := ''warning''\<rparr>)) (fresh_page ''hola'')))
       = ''card-header bg-warning text-white''
   \<and> header_class (snd (displayResults sample_host (analysis_value scenario_a) (fresh_page ''hola'')))
       \<noteq> header_class (snd (displayResults sample_host
             (analysis_value (scenario_a\<lparr>risk_color := ''warning''\<rparr>)) (fresh_page ''hola'')))"
  using C6_header_class[of sample_host scenario_a "fresh_page ''hola''"
      "scenario_a\<lparr>risk_color := ''warning''\<rparr>" "fresh_page ''hola''"]
    C6_header_class[of sample_host "scenario_a\<lparr>risk_color := ''warning''\<rparr>" "fresh_page ''hola''"
      scenario_a "fresh_page ''hola''"]
  by (simp add: scenario_a_def)

subsection \<open>C7: one item per element, in order\<close>

text \<open>
  Claim C7. For every analysis result the call of \<open>map\<close> on \<open>detected_keywords\<close> yields the
  badge of each keyword, in the order of the list, and likewise the list item of each URL;
  the badge and the list item determine their string, so equal item lists come from equal
  lists. When a list is not empty its part of the body is the block around the concatenation
  of these items.
\<close>

theorem C7_items_in_order:
  fixes h :: "'n host"
  shows "call_map h keyword_badge (own_property (analysis_value r) ''detected_keywords'') =
           Inr (map keyword_badge (detected_keywords r))
     \<and> call_map h url_item (own_property (analysis_value r) ''suspicious_urls'') =
           Inr (map url_item (suspicious_urls r))
     \<and> (map keyword_badge ks = map keyword_badge ks' \<longleftrightarrow> ks = ks')
     \<and> (map url_item us = map url_item us' \<longleftrightarrow> us = us')
     \<and> (detected_keywords r \<noteq> [] \<longrightarrow>
          evidence_part h keywords_block keyword_badge
            (own_property (analysis_value r) ''detected_keywords'') =
          Inr (keywords_block (concat (map keyword_badge (detected_keywords r)))))
     \<and> (suspicious_urls r \<noteq> [] \<longrightarrow>
          evidence_part h urls_block url_item
            (own_property (analysis_value r) ''suspicious_urls'') =
          Inr (urls_block (concat (map url_item (suspicious_urls r)))))
     \<and> body_html (snd (displayResults h (analysis_value r) p)) =
           (case risk_switch (Str (risk_level r) :: 'n js_value) of
              (alertClass, riskIcon, recommendation) \<Rightarrow>
                results_body alertClass (to_lower_case h (risk_level r)) riskIcon (risk_level r)
                  (number_to_string h (score r)) recommendation
                  (if detected_keywords r = [] then []
                   else keywords_block (concat (map keyword_badge (detected_keywords r))))
                  (if suspicious_urls r = [] then []
                   else urls_block (concat (map url_item (suspicious_urls r))))
                  (number_to_string h (total_urls r)))"
  by (simp add: own_property_analysis map_template_strings evidence_part_strings
      body_html_analysis inj_map_eq_map inj_keyword_badge inj_url_item)

theorem C7_items_in_order_witness:
  "detected_keywords scenario_a \<noteq> [] \<and> suspicious_urls scenario_a \<noteq> []
   \<and> call_map sample_host keyword_badge (own_property (analysis_value scenario_a) ''detected_keywords'')
       = Inr [keyword_badge ''free'', keyword_badge ''click'']
   \<and> call_map sample_host url_item (own_property (analysis_value scenario_a) ''suspicious_urls'')
       = Inr [url_item ''http://bit.ly/x'']
   \<and> evidence_part sample_host keywords_block keyword_badge
         (own_property (analysis_value scenario_a) ''detected_keywords'')
       = Inr (keywords_block (keyword_badge ''free'' @ keyword_badge ''click''))
   \<and> evidence_part sample_host urls_block url_item
         (own_property (analysis_value scenario_a) ''suspicious_urls'')
       = Inr (urls_block (url_item ''http://bit.ly/x''))"
  using C7_items_in_order[of sample_host scenario_a]
  by (simp add: scenario_a_def)

subsection \<open>C8: no escaping\<close>

text \<open>
  Claim C8. For every analysis result, every keyword stands in the body between the opening
  and closing tag of a badge exactly as it is, every URL between \<open><code>\<close> and \<open></code>\<close>, the
  risk level after \<open>Nivel de Riesgo:\<close> and the printed score before \<open>puntos\<close>; the strings are
  arbitrary, markup included.
\<close>

theorem C8_verbatim:
  fixes h :: "'n host"
  shows "(\<forall>k \<in> set (detected_keywords r).
            sublist (''<span class=\"badge bg-warning text-dark\">'' @ k @ ''</span>'')
              (body_html (snd (displayResults h (analysis_value r) p))))
     \<and> (\<forall>u \<in> set (suspicious_urls r).
            sublist (''<code>'' @ u @ ''</code>'')
              (body_html (snd (displayResults h (analysis_value r) p))))
     \<and> sublist ('' Nivel de Riesgo: '' @ risk_level r @ ''</h4>\<newline>'')
           (body_html (snd (displayResults h (analysis_value r) p)))
     \<and> sublist (''n de riesgo:</strong> '' @ number_to_string h (score r) @ '' puntos</p>\<newline>'')
           (body_html (snd (displayResults h (analysis_value r) p)))"
proof -
  obtain a c f where row: "risk_switch (Str (risk_level r) :: 'n js_value) = (a, c, f)"
    by (cases "risk_switch (Str (risk_level r) :: 'n js_value)") auto
  let ?kp = "if detected_keywords r = [] then []
             else keywords_block (concat (map keyword_badge (detected_keywords r)))"
  let ?up = "if suspicious_urls r = [] then []
             else urls_block (concat (map url_item (suspicious_urls r)))"
  let ?body = "results_body a (to_lower_case h (risk_level r)) c (risk_level r)
                 (number_to_string h (score r)) f ?kp ?up (number_to_string h (total_urls r))"
  have body: "body_html (snd (displayResults h (analysis_value r) p)) = ?body"
    unfolding body_html_analysis row by (simp only: prod.case)
  have kw_fact: "sublist (''<span class=\"badge bg-warning text-dark\">'' @ k @ ''</span>'') ?body"
    if "k \<in> set (detected_keywords r)" for k
  proof -
    from that have nonempty: "detected_keywords r \<noteq> []" by auto
    have "sublist (keyword_badge k) (concat (map keyword_badge (detected_keywords r)))"
      using that by (rule sublist_concat_map)
    then have "sublist (keyword_badge k) ?kp"
      using nonempty inner_in_keywords_block sublist_trans by auto
    then have "sublist (keyword_badge k) ?body"
      using keywords_in_results_body sublist_trans by blast
    with keyword_in_badge show ?thesis
      using sublist_trans by blast
  qed
  have url_fact: "sublist (''<code>'' @ u @ ''</code>'') ?body"
    if "u \<in> set (suspicious_urls r)" for u
  proof -
    from that have nonempty: "suspicious_urls r \<noteq> []" by auto
    have "sublist (url_item u) (concat (map url_item (suspicious_urls r)))"
      using that by (rule sublist_concat_map)
    then have "sublist (url_item u) ?up"
      using nonempty inner_in_urls_block sublist_trans by auto
    then have "sublist (url_item u) ?body"
      using urls_in_results_body sublist_trans by blast
    with url_in_item show ?thesis
      using sublist_trans by blast
  qed
  show ?thesis
    unfolding body using kw_fact url_fact level_in_results_body score_in_results_body by blast
qed

text \<open>
  A keyword that carries markup.
\<close>

theorem C8_verbatim_witness:
  "''<b>free</b>'' \<in> set (detected_keywords (scenario_a\<lparr>detected_keywords := [''<b>free</b>'']\<rparr>))
   \<and> ''http://bit.ly/x'' \<in> set (suspicious_urls (scenario_a\<lparr>detected_keywords := [''<b>free</b>'']\<rparr>))
   \<and> sublist (''<span class=\"badge bg-warning text-dark\">'' @ ''<b>free</b>'' @ ''</span>'')
         (body_html (snd (displayResults sample_host
            (analysis_value (scenario_a\<lparr>detected_keywords := [''<b>free</b>'']\<rparr>)) (fresh_page ''hola''))))
   \<and> sublist (''<code>'' @ ''http://bit.ly/x'' @ ''</code>'')
         (body_html (snd (displayResults sample_host
            (analysis_value (scenario_a\<lparr>detected_keywords := [''<b>free</b>'']\<rparr>)) (fresh_page ''hola''))))"
  using C8_verbatim[of "scenario_a\<lparr>detected_keywords := [''<b>free</b>'']\<rparr>" sample_host "fresh_page ''hola''"]
  by (simp add: scenario_a_def)

subsection \<open>C9: an answer without a usable analysis\<close>

text \<open>
  Claim C9, as amended. Let the trimmed content be not empty, and let the answer be a parsed
  value other than \<open>null\<close> whose \<open>error\<close> property is missing or falsy. If its \<open>analysis\<close>
  property is missing or \<open>null\<close>, or is a value whose \<open>risk_level\<close> is not a string (every value
  that is not an object, and \<open>{}\<close>), or a value whose \<open>detected_keywords\<close> or \<open>suspicious_urls\<close>
  is missing or \<open>null\<close>, then the renderer throws an error \<open>e\<close>; the run logs \<open>e\<close> and raises
  the alert with the fixed prefix and the message of \<open>e\<close>, after at most a write of the header
  class; the results stay hidden, the body is not written and the button is restored. For a
  missing or \<open>null\<close> analysis \<open>e\<close> is the \<open>TypeError\<close> of the destructuring and the renderer
  writes nothing. When the answer is \<open>null\<close> the same entries follow, but the \<open>TypeError\<close> is
  the one of reading \<open>data.error\<close> in \<open>analyzeEmail\<close>, before the renderer is called. The entries
  are those of a rejected \<open>fetch\<close> and of a rejected \<open>response.json()\<close>, with the error in place
  of the rejection: there is one handler and no error kind of its own for a malformed answer.
\<close>

theorem C9_malformed_answer:
  assumes "trim h (email_content p) \<noteq> []"
  shows "(\<not> nullish data \<and> \<not> truthy h (own_property data ''error'')
          \<and> (nullish (own_property data ''analysis'')
               \<or> (\<forall>s. own_property (own_property data ''analysis'') ''risk_level'' \<noteq> Str s)
               \<or> nullish (own_property (own_property data ''analysis'') ''detected_keywords'')
               \<or> nullish (own_property (own_property data ''analysis'') ''suspicious_urls''))
          \<longrightarrow>
            (\<exists>e pre. fst (displayResults h (own_property data ''analysis'') q) = Some e
                \<and> journal (analyzeEmail h (Json_resolves data) p) =
                    journal p
                    @ [Set_button_html (hourglass @ '' Analizando...''), Set_button_disabled True,
                       Set_results_display ''none'',
                       Fetch (analyze_request h (trim h (email_content p)))]
                    @ pre
                    @ [Console_error e,
                       Alert (''Error al analizar el correo: '' @ message_of h e),
                       Set_button_html (magnifier @ '' Analizar Correo''),
                       Set_button_disabled False]
                \<and> (pre = [] \<or> (\<exists>c. pre = [Set_header_class c])))
            \<and> results_display (analyzeEmail h (Json_resolves data) p) = ''none''
            \<and> body_html (analyzeEmail h (Json_resolves data) p) = body_html p
            \<and> button_html (analyzeEmail h (Json_resolves data) p) = magnifier @ '' Analizar Correo''
            \<and> button_disabled (analyzeEmail h (Json_resolves data) p) = False)
     \<and> (\<not> nullish data \<and> \<not> truthy h (own_property data ''error'')
          \<and> nullish (own_property data ''analysis'')
          \<longrightarrow>
            displayResults h (own_property data ''analysis'') q = (Some (TypeError Destructuring), q)
            \<and> analyzeEmail h (Json_resolves data) p =
                p\<lparr>button_html := magnifier @ '' Analizar Correo'',
                  button_disabled := False,
                  results_display := ''none'',
                  journal := journal p
                    @ [Set_button_html (hourglass @ '' Analizando...''), Set_button_disabled True,
                       Set_results_display ''none'',
                       Fetch (analyze_request h (trim h (email_content p))),
                       Console_error (TypeError Destructuring),
                       Alert (''Error al analizar el correo: ''
                                @ type_error_message h Destructuring),
                       Set_button_html (magnifier @ '' Analizar Correo''),
                       Set_button_disabled False]\<rparr>)
     \<and> analyzeEmail h (Json_resolves Null) p =
          p\<lparr>button_html := magnifier @ '' Analizar Correo'',
            button_disabled := False,
            results_display := ''none'',
            journal := journal p
              @ [Set_button_html (hourglass @ '' Analizando...''), Set_button_disabled True,
                 Set_results_display ''none'',
                 Fetch (analyze_request h (trim h (email_content p))),
                 Console_error (TypeError (Reading ''error'')),
                 Alert (''Error al analizar el correo: ''
                          @ type_error_message h (Reading ''error'')),
                 Set_button_html (magnifier @ '' Analizar Correo''),
                 Set_button_disabled False]\<rparr>
     \<and> try_block h Null q = (Some (TypeError (Reading ''error'')), q)
     \<and> analyzeEmail h (Fetch_rejects m) p =
          p\<lparr>button_html := magnifier @ '' Analizar Correo'',
            button_disabled := False,
            results_display := ''none'',
            journal := journal p
              @ [Set_button_html (hourglass @ '' Analizando...''), Set_button_disabled True,
                 Set_results_display ''none'',
                 Fetch (analyze_request h (trim h (email_content p))),
                 Console_error (Rejected m),
                 Alert (''Error al analizar el correo: '' @ m),
                 Set_button_html (magnifier @ '' Analizar Correo''),
                 Set_button_disabled False]\<rparr>
     \<and> analyzeEmail h (Json_rejects m) p = analyzeEmail h (Fetch_rejects m) p"
proof (intro conjI impI)
  assume malformed: "\<not> nullish data \<and> \<not> truthy h (own_property data ''error'')
          \<and> (nullish (own_property data ''analysis'')
               \<or> (\<forall>s. own_property (own_property data ''analysis'') ''risk_level'' \<noteq> Str s)
               \<or> nullish (own_property (own_property data ''analysis'') ''detected_keywords'')
               \<or> nullish (own_property (own_property data ''analysis'') ''suspicious_urls''))"
  let ?a = "own_property data ''analysis''"
  let ?p2 = "fetch (analyze_request h (trim h (email_content p)))
               (set_results_display ''none''
                 (set_button_disabled True
                   (set_button_html (hourglass @ '' Analizando...'') p)))"
  from malformed have object: "\<not> nullish data"
    and no_error: "\<not> truthy h (own_property data ''error'')"
    by simp_all
  from malformed displayResults_throws[of ?a h ?p2]
  obtain e where thrown: "fst (displayResults h ?a ?p2) = Some e"
    by blast
  then have anywhere: "fst (displayResults h ?a q) = Some e"
    using displayResults_error_page_free[of h ?a q ?p2] by simp
  from thrown displayResults_shape[of h ?a ?p2]
  consider (early) "displayResults h ?a ?p2 = (Some e, ?p2)"
    | (late) c where "displayResults h ?a ?p2 = (Some e, set_header_class c ?p2)"
    by auto
  then have run: "analyzeEmail h (Json_resolves data) p = finally_block (catch_block h e ?p2)
      \<or> (\<exists>c. analyzeEmail h (Json_resolves data) p =
                 finally_block (catch_block h e (set_header_class c ?p2)))"
  proof cases
    case early
    then have "analyzeEmail h (Json_resolves data) p = finally_block (catch_block h e ?p2)"
      using assms object no_error
      by (simp add: analyzeEmail_def Let_def try_block_def get_own_def)
    then show ?thesis by blast
  next
    case late
    then have "analyzeEmail h (Json_resolves data) p =
                 finally_block (catch_block h e (set_header_class c ?p2))"
      using assms object no_error
      by (simp add: analyzeEmail_def Let_def try_block_def get_own_def)
    then show ?thesis by blast
  qed
  from run have entries: "\<exists>pre. journal (analyzeEmail h (Json_resolves data) p) =
                journal p
                @ [Set_button_html (hourglass @ '' Analizando...''), Set_button_disabled True,
                   Set_results_display ''none'',
                   Fetch (analyze_request h (trim h (email_content p)))]
                @ pre
                @ [Console_error e,
                   Alert (''Error al analizar el correo: '' @ message_of h e),
                   Set_button_html (magnifier @ '' Analizar Correo''),
                   Set_button_disabled False]
                \<and> (pre = [] \<or> (\<exists>c. pre = [Set_header_class c]))"
  proof (elim disjE exE)
    assume r: "analyzeEmail h (Json_resolves data) p = finally_block (catch_block h e ?p2)"
    show ?thesis
      unfolding r by (rule exI[of _ "[]"]) (simp add: page_ops)
  next
    fix c
    assume r: "analyzeEmail h (Json_resolves data) p =
                 finally_block (catch_block h e (set_header_class c ?p2))"
    show ?thesis
      unfolding r by (rule exI[of _ "[Set_header_class c]"]) (simp add: page_ops)
  qed
  from anywhere entries
  show "\<exists>e pre. fst (displayResults h (own_property data ''analysis'') q) = Some e
                \<and> journal (analyzeEmail h (Json_resolves data) p) =
                    journal p
                    @ [Set_button_html (hourglass @ '' Analizando...''), Set_button_disabled True,
                       Set_results_display ''none'',
                       Fetch (analyze_request h (trim h (email_content p)))]
                    @ pre
                    @ [Console_error e,
                       Alert (''Error al analizar el correo: '' @ message_of h e),
                       Set_button_html (magnifier @ '' Analizar Correo''),
                       Set_button_disabled False]
                \<and> (pre = [] \<or> (\<exists>c. pre = [Set_header_class c]))"
    by blast
  from run show "results_display (analyzeEmail h (Json_resolves data) p) = ''none''"
    by (auto simp: page_ops)
  from run show "body_html (analyzeEmail h (Json_resolves data) p) = body_html p"
    by (auto simp: page_ops)
  from run show "button_html (analyzeEmail h (Json_resolves data) p) = magnifier @ '' Analizar Correo''"
    by (auto simp: page_ops)
  from run show "button_disabled (analyzeEmail h (Json_resolves data) p) = False"
    by (auto simp: page_ops)
next
  assume "\<not> nullish data \<and> \<not> truthy h (own_property data ''error'')
          \<and> nullish (own_property data ''analysis'')"
  then show "displayResults h (own_property data ''analysis'') q = (Some (TypeError Destructuring), q)"
    by (simp add: displayResults_def)
next
  assume absent: "\<not> nullish data \<and> \<not> truthy h (own_property data ''error'')
          \<and> nullish (own_property data ''analysis'')"
  then have "\<And>q. displayResults h (own_property data ''analysis'') q
                 = (Some (TypeError Destructuring), q)"
    by (simp add: displayResults_def)
  then show "analyzeEmail h (Json_resolves data) p =
                p\<lparr>button_html := magnifier @ '' Analizar Correo'',
                  button_disabled := False,
                  results_display := ''none'',
                  journal := journal p
                    @ [Set_button_html (hourglass @ '' Analizando...''), Set_button_disabled True,
                       Set_results_display ''none'',
                       Fetch (analyze_request h (trim h (email_content p))),
                       Console_error (TypeError Destructuring),
                       Alert (''Error al analizar el correo: ''
                                @ type_error_message h Destructuring),
                       Set_button_html (magnifier @ '' Analizar Correo''),
                       Set_button_disabled False]\<rparr>"
    using assms absent
    by (simp add: analyzeEmail_def Let_def try_block_def get_own_def page_ops)
next
  show "analyzeEmail h (Json_resolves Null) p =
          p\<lparr>button_html := magnifier @ '' Analizar Correo'',
            button_disabled := False,
            results_display := ''none'',
            journal := journal p
              @ [Set_button_html (hourglass @ '' Analizando...''), Set_button_disabled True,
                 Set_results_display ''none'',
                 Fetch (analyze_request h (trim h (email_content p))),
                 Console_error (TypeError (Reading ''error'')),
                 Alert (''Error al analizar el correo: ''
                          @ type_error_message h (Reading ''error'')),
                 Set_button_html (magnifier @ '' Analizar Correo''),
                 Set_button_disabled False]\<rparr>"
    using assms
    by (simp add: analyzeEmail_def Let_def try_block_def get_own_def nullish_def page_ops)
next
  show "try_block h Null q = (Some (TypeError (Reading ''error'')), q)"
    by (simp add: try_block_def get_own_def nullish_def)
next
  show "analyzeEmail h (Fetch_rejects m) p =
          p\<lparr>button_html := magnifier @ '' Analizar Correo'',
            button_disabled := False,
            results_display := ''none'',
            journal := journal p
              @ [Set_button_html (hourglass @ '' Analizando...''), Set_button_disabled True,
                 Set_results_display ''none'',
                 Fetch (analyze_request h (trim h (email_content p))),
                 Console_error (Rejected m),
                 Alert (''Error al analizar el correo: '' @ m),
                 Set_button_html (magnifier @ '' Analizar Correo''),
                 Set_button_disabled False]\<rparr>"
    using assms by (simp add: analyzeEmail_def Let_def page_ops)
next
  show "analyzeEmail h (Json_rejects m) p = analyzeEmail h (Fetch_rejects m) p"
    by (simp add: analyzeEmail_def Let_def)
qed

text \<open>
  An answer \<open>{}\<close>; an answer \<open>{"analysis": {"risk_level": "ALTO"}}\<close>, where the renderer throws
  at \<open>detected_keywords.length\<close> after it has written the header class; and a \<open>null\<close> answer.
\<close>

theorem C9_malformed_answer_witness:
  "trim sample_host (email_content (fresh_page ''hola'')) \<noteq> []
   \<and> \<not> nullish (Obj [] :: int js_value)
   \<and> \<not> truthy sample_host (own_property (Obj []) ''error'')
   \<and> nullish (own_property (Obj [] :: int js_value) ''analysis'')
   \<and> analyzeEmail sample_host (Json_resolves (Obj [])) (fresh_page ''hola'') =
       (fresh_page ''hola'')\<lparr>journal :=
          [Set_button_html (hourglass @ '' Analizando...''), Set_button_disabled True,
           Set_results_display ''none'',
           Fetch \<lparr>req_url = ''/analyze'', req_method = ''POST'',
                  req_headers = [(''Content-Type'', ''application/json'')],
                  req_body = ''{\"email_content\":\"hola\"}''\<rparr>,
           Console_error (TypeError Destructuring),
           Alert ''Error al analizar el correo: Cannot destructure a value that is undefined or null'',
           Set_button_html (magnifier @ '' Analizar Correo''),
           Set_button_disabled False]\<rparr>
   \<and> \<not> nullish (Obj [(''analysis'', Obj [(''risk_level'', Str ''ALTO'')])] :: int js_value)
   \<and> \<not> truthy sample_host
         (own_property (Obj [(''analysis'', Obj [(''risk_level'', Str ''ALTO'')])]) ''error'')
   \<and> nullish (own_property
         (own_property (Obj [(''analysis'', Obj [(''risk_level'', Str ''ALTO'')])] :: int js_value)
            ''analysis'') ''detected_keywords'')
   \<and> fst (displayResults sample_host
         (own_property (Obj [(''analysis'', Obj [(''risk_level'', Str ''ALTO'')])]) ''analysis'')
         (fresh_page ''hola'')) = Some (TypeError (Reading ''length''))
   \<and> results_display
         (analyzeEmail sample_host
            (Json_resolves (Obj [(''analysis'', Obj [(''risk_level'', Str ''ALTO'')])]))
            (fresh_page ''hola'')) = ''none''
   \<and> button_disabled
         (analyzeEmail sample_host
            (Json_resolves (Obj [(''analysis'', Obj [(''risk_level'', Str ''ALTO'')])]))
            (fresh_page ''hola'')) = False
   \<and> filter is_console_error
         (journal (analyzeEmail sample_host (Json_resolves Null) (fresh_page ''hola'')))
       = [Console_error (TypeError (Reading ''error''))]"
proof -
  have nonblank: "trim sample_host (email_content (fresh_page ''hola'')) \<noteq> []"
    by (simp add: hola_not_blank)
  have object1: "\<not> nullish (Obj [] :: int js_value)"
    by (simp add: nullish_def)
  have no_error1: "\<not> truthy sample_host (own_property (Obj []) ''error'')"
    by simp
  have absent: "nullish (own_property (Obj [] :: int js_value) ''analysis'')"
    by (simp add: nullish_def)
  have object2: "\<not> nullish (Obj [(''analysis'', Obj [(''risk_level'', Str ''ALTO'')])] :: int js_value)"
    by (simp add: nullish_def)
  have no_error2: "\<not> truthy sample_host
         (own_property (Obj [(''analysis'', Obj [(''risk_level'', Str ''ALTO'')])]) ''error'')"
    by simp
  have no_list: "nullish (own_property
         (own_property (Obj [(''analysis'', Obj [(''risk_level'', Str ''ALTO'')])] :: int js_value)
            ''analysis'') ''detected_keywords'')"
    by (simp add: nullish_def)
  have thrown: "fst (displayResults sample_host
         (own_property (Obj [(''analysis'', Obj [(''risk_level'', Str ''ALTO'')])]) ''analysis'')
         (fresh_page ''hola'')) = Some (TypeError (Reading ''length''))"
    by (simp add: displayResults_def nullish_def render_body_def evidence_part_def page_ops
        split: prod.splits)
  note first = C9_malformed_answer[OF nonblank, of "Obj []"]
  note second =
    C9_malformed_answer[OF nonblank, of "Obj [(''analysis'', Obj [(''risk_level'', Str ''ALTO'')])]"]
  note third = C9_malformed_answer[OF nonblank]
  have run1: "analyzeEmail sample_host (Json_resolves (Obj [])) (fresh_page ''hola'') =
       (fresh_page ''hola'')\<lparr>journal :=
          [Set_button_html (hourglass @ '' Analizando...''), Set_button_disabled True,
           Set_results_display ''none'',
           Fetch \<lparr>req_url = ''/analyze'', req_method = ''POST'',
                  req_headers = [(''Content-Type'', ''application/json'')],
                  req_body = ''{\"email_content\":\"hola\"}''\<rparr>,
           Console_error (TypeError Destructuring),
           Alert ''Error al analizar el correo: Cannot destructure a value that is undefined or null'',
           Set_button_html (magnifier @ '' Analizar Correo''),
           Set_button_disabled False]\<rparr>"
    using first object1 no_error1 absent
    by (simp add: hola_not_blank analyze_request_def)
       (simp add: sample_host_def fresh_page_def quote_string_def quote_char_def
          sample_type_error_message_def)
  have run2: "results_display
         (analyzeEmail sample_host
            (Json_resolves (Obj [(''analysis'', Obj [(''risk_level'', Str ''ALTO'')])]))
            (fresh_page ''hola'')) = ''none''
     \<and> button_disabled
         (analyzeEmail sample_host
            (Json_resolves (Obj [(''analysis'', Obj [(''risk_level'', Str ''ALTO'')])]))
            (fresh_page ''hola'')) = False"
    using second object2 no_error2 no_list by blast
  have run3: "filter is_console_error
         (journal (analyzeEmail sample_host (Json_resolves Null) (fresh_page ''hola'')))
       = [Console_error (TypeError (Reading ''error''))]"
    using third by (simp add: fresh_page_def)
  from nonblank object1 no_error1 absent run1 object2 no_error2 no_list thrown run2 run3
  show ?thesis by (intro conjI) blast+
qed

text \<open>
  The claim as it was stated fails in two ways. An analysis object that has a string
  \<open>risk_level\<close> and both evidence lists but lacks \<open>risk_color\<close>, \<open>score\<close> and \<open>total_urls\<close> is not an
  analysis result of the wire contract, yet the renderer does not throw on it: the body is
  written with \<open>undefined\<close> in their place, the header class is \<open>card-header bg-undefined
  text-white\<close>, the results are revealed and nothing is alerted or logged. And for a \<open>null\<close>
  answer, which parses as JSON and has neither field, the renderer is never called: the error
  is the \<open>TypeError\<close> of reading \<open>data.error\<close>, and the header class is not written.
\<close>

theorem C9_counterexample:
  "own_property
      (Obj [(''analysis'', Obj [(''risk_level'', Str ''ALTO''), (''detected_keywords'', Arr []),
                               (''suspicious_urls'', Arr [])])] :: int js_value) ''error'' = Undefined
   \<and> own_property
        (Obj [(''risk_level'', Str ''ALTO''), (''detected_keywords'', Arr []),
              (''suspicious_urls'', Arr [])] :: int js_value) ''score'' = Undefined
   \<and> fst (displayResults sample_host
        (Obj [(''risk_level'', Str ''ALTO''), (''detected_keywords'', Arr []),
              (''suspicious_urls'', Arr [])]) (fresh_page ''hola'')) = None
   \<and> results_display
        (analyzeEmail sample_host
          (Json_resolves
            (Obj [(''analysis'', Obj [(''risk_level'', Str ''ALTO''), (''detected_keywords'', Arr []),
                                     (''suspicious_urls'', Arr [])])]))
          (fresh_page ''hola'')) = ''block''
   \<and> header_class
        (analyzeEmail sample_host
          (Json_resolves
            (Obj [(''analysis'', Obj [(''risk_level'', Str ''ALTO''), (''detected_keywords'', Arr []),
                                     (''suspicious_urls'', Arr [])])]))
          (fresh_page ''hola'')) = ''card-header bg-undefined text-white''
   \<and> filter is_alert (journal
        (analyzeEmail sample_host
          (Json_resolves
            (Obj [(''analysis'', Obj [(''risk_level'', Str ''ALTO''), (''detected_keywords'', Arr []),
                                     (''suspicious_urls'', Arr [])])]))
          (fresh_page ''hola''))) = []
   \<and> filter is_console_error (journal
        (analyzeEmail sample_host
          (Json_resolves
            (Obj [(''analysis'', Obj [(''risk_level'', Str ''ALTO''), (''detected_keywords'', Arr []),
                                     (''suspicious_urls'', Arr [])])]))
          (fresh_page ''hola''))) = []
   \<and> filter is_console_error (journal
        (analyzeEmail sample_host (Json_resolves Null) (fresh_page ''hola'')))
       = [Console_error (TypeError (Reading ''error''))]
   \<and> header_class (analyzeEmail sample_host (Json_resolves Null) (fresh_page ''hola''))
       = header_class (fresh_page ''hola'')"
  by (simp add: analyzeEmail_def Let_def hola_not_blank try_block_def get_own_def nullish_def
      displayResults_def render_body_def evidence_part_def page_ops fresh_page_def
      sample_host_def ascii_trim_def is_ascii_space_def split: prod.splits)

subsection \<open>C10: the results stay hidden until they are rendered\<close>

text \<open>
  Claim C10. When the trimmed content is not empty, the run hides the results before it
  sends the request. What follows the request is one of: nothing (the promises never
  settle), the entries of the \<open>catch\<close> and \<open>finally\<close> blocks, preceded at most by a write of the
  header class, or the writes of the header class and the body followed by the reveal. The
  results are revealed only in the last case, right after the body is written; in the first
  two they are hidden and the body is the one the page had before the run.
\<close>

theorem C10_results_hidden_until_rendered:
  assumes "trim h (email_content p) \<noteq> []"
  shows "\<exists>rest. journal (analyzeEmail h net p) =
             journal p
             @ [Set_button_html (hourglass @ '' Analizando...''), Set_button_disabled True,
                Set_results_display ''none'',
                Fetch (analyze_request h (trim h (email_content p)))]
             @ rest
           \<and> ((rest = []
                \<and> results_display (analyzeEmail h net p) = ''none''
                \<and> body_html (analyzeEmail h net p) = body_html p)
              \<or> (\<exists>e pre. rest = pre @ [Console_error e,
                              Alert (''Error al analizar el correo: '' @ message_of h e),
                              Set_button_html (magnifier @ '' Analizar Correo''),
                              Set_button_disabled False]
                    \<and> (pre = [] \<or> (\<exists>c. pre = [Set_header_class c]))
                    \<and> results_display (analyzeEmail h net p) = ''none''
                    \<and> body_html (analyzeEmail h net p) = body_html p)
              \<or> (\<exists>c b. rest = [Set_header_class c, Set_body_html b,
                              Set_results_display ''block'', Scroll_into_view ''smooth'',
                              Set_button_html (magnifier @ '' Analizar Correo''),
                              Set_button_disabled False]
                    \<and> results_display (analyzeEmail h net p) = ''block''
                    \<and> body_html (analyzeEmail h net p) = b))"
proof -
  let ?p2 = "fetch (analyze_request h (trim h (email_content p)))
               (set_results_display ''none''
                 (set_button_disabled True
                   (set_button_html (hourglass @ '' Analizando...'') p)))"
  from analyzeEmail_shape[OF assms, of net]
  consider (pending) "analyzeEmail h net p = ?p2"
    | (early) e where "analyzeEmail h net p = finally_block (catch_block h e ?p2)"
    | (late) e c where
        "analyzeEmail h net p = finally_block (catch_block h e (set_header_class c ?p2))"
    | (shown) c b where
        "analyzeEmail h net p =
           finally_block (scroll_into_view ''smooth'' (set_results_display ''block''
             (set_body_html b (set_header_class c ?p2))))"
    by blast
  then show ?thesis
  proof cases
    case pending
    show ?thesis
      unfolding pending by (rule exI[of _ "[]"]) (simp add: page_ops)
  next
    case early
    show ?thesis
      unfolding early
      by (rule exI[of _ "[Console_error e,
            Alert (''Error al analizar el correo: '' @ message_of h e),
            Set_button_html (magnifier @ '' Analizar Correo''),
            Set_button_disabled False]"])
         (simp add: page_ops)
  next
    case late
    show ?thesis
      unfolding late
      by (rule exI[of _ "[Set_header_class c, Console_error e,
            Alert (''Error al analizar el correo: '' @ message_of h e),
            Set_button_html (magnifier @ '' Analizar Correo''),
            Set_button_disabled False]"])
         (simp add: page_ops)
  next
    case shown
    show ?thesis
      unfolding shown
      by (rule exI[of _ "[Set_header_class c, Set_body_html b,
            Set_results_display ''block'', Scroll_into_view ''smooth'',
            Set_button_html (magnifier @ '' Analizar Correo''),
            Set_button_disabled False]"])
         (simp add: page_ops)
  qed
qed

text \<open>
  A rejected request after a successful analysis: the earlier results are hidden, and
  their markup is still the body.
\<close>

theorem C10_results_hidden_until_rendered_witness:
  "trim sample_host (email_content
      (analyzeEmail sample_host
         (Json_resolves (Obj [(''analysis'', analysis_value scenario_a)])) (fresh_page ''hola''))) \<noteq> []
   \<and> results_display
        (analyzeEmail sample_host
           (Json_resolves (Obj [(''analysis'', analysis_value scenario_a)])) (fresh_page ''hola''))
       = ''block''
   \<and> results_display
        (analyzeEmail sample_host (Fetch_rejects ''Failed to fetch'')
          (analyzeEmail sample_host
             (Json_resolves (Obj [(''analysis'', analysis_value scenario_a)])) (fresh_page ''hola'')))
       = ''none''
   \<and> body_html
        (analyzeEmail sample_host (Fetch_rejects ''Failed to fetch'')
          (analyzeEmail sample_host
             (Json_resolves (Obj [(''analysis'', analysis_value scenario_a)])) (fresh_page ''hola'')))
       = body_html
          (analyzeEmail sample_host
             (Json_resolves (Obj [(''analysis'', analysis_value scenario_a)])) (fresh_page ''hola''))"
proof -
  let ?p1 = "analyzeEmail sample_host
               (Json_resolves (Obj [(''analysis'', analysis_value scenario_a)])) (fresh_page ''hola'')"
  have nonblank: "trim sample_host (email_content ?p1) \<noteq> []"
    by (simp add: email_content_kept hola_not_blank)
  have shown: "results_display ?p1 = ''block''"
    by (simp add: analyzeEmail_def Let_def hola_not_blank try_block_def get_own_def nullish_def
        displayResults_analysis page_ops)
  have failed: "filter is_console_error
       (drop (length (journal ?p1) + 4)
          (journal (analyzeEmail sample_host (Fetch_rejects ''Failed to fetch'') ?p1))) \<noteq> []"
    using nonblank by (simp add: analyzeEmail_def Let_def page_ops)
  from C10_results_hidden_until_rendered[OF nonblank, of "Fetch_rejects ''Failed to fetch''"]
  obtain rest where rest:
    "journal (analyzeEmail sample_host (Fetch_rejects ''Failed to fetch'') ?p1) =
       journal ?p1
       @ [Set_button_html (hourglass @ '' Analizando...''), Set_button_disabled True,
          Set_results_display ''none'',
          Fetch (analyze_request sample_host (trim sample_host (email_content ?p1)))]
       @ rest"
    and shape: "(rest = []
          \<and> results_display (analyzeEmail sample_host (Fetch_rejects ''Failed to fetch'') ?p1) = ''none''
          \<and> body_html (analyzeEmail sample_host (Fetch_rejects ''Failed to fetch'') ?p1) = body_html ?p1)
       \<or> (\<exists>e pre. rest = pre @ [Console_error e,
                      Alert (''Error al analizar el correo: '' @ message_of sample_host e),
                      Set_button_html (magnifier @ '' Analizar Correo''),
                      Set_button_disabled False]
            \<and> (pre = [] \<or> (\<exists>c. pre = [Set_header_class c]))
            \<and> results_display (analyzeEmail sample_host (Fetch_rejects ''Failed to fetch'') ?p1) = ''none''
            \<and> body_html (analyzeEmail sample_host (Fetch_rejects ''Failed to fetch'') ?p1) = body_html ?p1)
       \<or> (\<exists>c b. rest = [Set_header_class c, Set_body_html b,
                      Set_results_display ''block'', Scroll_into_view ''smooth'',
                      Set_button_html (magnifier @ '' Analizar Correo''),
                      Set_button_disabled False]
            \<and> results_display (analyzeEmail sample_host (Fetch_rejects ''Failed to fetch'') ?p1) = ''block''
            \<and> body_html (analyzeEmail sample_host (Fetch_rejects ''Failed to fetch'') ?p1) = b)"
    by blast
  from failed rest have "filter is_console_error rest \<noteq> []"
    by simp
  with shape have "results_display (analyzeEmail sample_host (Fetch_rejects ''Failed to fetch'') ?p1) = ''none''
      \<and> body_html (analyzeEmail sample_host (Fetch_rejects ''Failed to fetch'') ?p1) = body_html ?p1"
    by auto
  with nonblank shown show ?thesis by blast
qed

end
